theory Spec2Isabelle
  imports Complex_Main
begin

section \<open>Values of numpy's float64 arrays\<close>

text \<open>
  The arrays of \<^verbatim>\<open>niftidecomp_workflow\<close> hold IEEE-754 doubles. The model keeps the
  three special values of that format, since the normaliser divides by factors that may
  be zero and then calls \<^verbatim>\<open>np.nan_to_num\<close>, and takes a finite value as the real
  number it denotes: rounding, overflow of finite results and the sign of zero are not
  modelled. \<open>Fin 0\<close> stands for both zeros of the format.
\<close>

datatype fl = Fin real | PInf | NInf | NaN

definition fl_neg :: "fl \<Rightarrow> fl" where
  "fl_neg a = (case a of Fin x \<Rightarrow> Fin (- x) | PInf \<Rightarrow> NInf | NInf \<Rightarrow> PInf | NaN \<Rightarrow> NaN)"

definition fl_add :: "fl \<Rightarrow> fl \<Rightarrow> fl" where
  "fl_add a b =
     (case a of
        NaN \<Rightarrow> NaN
      | Fin x \<Rightarrow> (case b of Fin y \<Rightarrow> Fin (x + y) | PInf \<Rightarrow> PInf | NInf \<Rightarrow> NInf | NaN \<Rightarrow> NaN)
      | PInf \<Rightarrow> (case b of Fin y \<Rightarrow> PInf | PInf \<Rightarrow> PInf | NInf \<Rightarrow> NaN | NaN \<Rightarrow> NaN)
      | NInf \<Rightarrow> (case b of Fin y \<Rightarrow> NInf | PInf \<Rightarrow> NaN | NInf \<Rightarrow> NInf | NaN \<Rightarrow> NaN))"

definition fl_sub :: "fl \<Rightarrow> fl \<Rightarrow> fl" where
  "fl_sub a b = fl_add a (fl_neg b)"

text \<open>The infinity with the sign of a nonzero real, and NaN for zero.\<close>

definition inf_of_sign :: "real \<Rightarrow> fl" where
  "inf_of_sign x = (if x = 0 then NaN else if 0 < x then PInf else NInf)"

definition fl_mul :: "fl \<Rightarrow> fl \<Rightarrow> fl" where
  "fl_mul a b =
     (case a of
        NaN \<Rightarrow> NaN
      | Fin x \<Rightarrow> (case b of Fin y \<Rightarrow> Fin (x * y) | PInf \<Rightarrow> inf_of_sign x
                  | NInf \<Rightarrow> inf_of_sign (- x) | NaN \<Rightarrow> NaN)
      | PInf \<Rightarrow> (case b of Fin y \<Rightarrow> inf_of_sign y | PInf \<Rightarrow> PInf | NInf \<Rightarrow> NInf | NaN \<Rightarrow> NaN)
      | NInf \<Rightarrow> (case b of Fin y \<Rightarrow> inf_of_sign (- y) | PInf \<Rightarrow> NInf | NInf \<Rightarrow> PInf
                  | NaN \<Rightarrow> NaN))"

text \<open>
  numpy's true division: a division by zero is no exception but a warning, with result
  NaN for 0/0 and an infinity otherwise. The sign given to that infinity here is the one
  it has for the divisor +0.0; for the divisor -0.0 the code's infinity has the opposite
  sign; the statement of claim C5 on a factor that is zero is made for either sign.
\<close>

definition fl_div :: "fl \<Rightarrow> fl \<Rightarrow> fl" where
  "fl_div a b =
     (case a of
        NaN \<Rightarrow> NaN
      | Fin x \<Rightarrow> (case b of Fin y \<Rightarrow> (if y = 0 then inf_of_sign x else Fin (x / y))
                  | PInf \<Rightarrow> Fin 0 | NInf \<Rightarrow> Fin 0 | NaN \<Rightarrow> NaN)
      | PInf \<Rightarrow> (case b of Fin y \<Rightarrow> (if 0 \<le> y then PInf else NInf) | PInf \<Rightarrow> NaN
                  | NInf \<Rightarrow> NaN | NaN \<Rightarrow> NaN)
      | NInf \<Rightarrow> (case b of Fin y \<Rightarrow> (if 0 \<le> y then NInf else PInf) | PInf \<Rightarrow> NaN
                  | NInf \<Rightarrow> NaN | NaN \<Rightarrow> NaN))"

text \<open>\<^verbatim>\<open>a < b\<close>: every comparison with NaN is false.\<close>

definition fl_less :: "fl \<Rightarrow> fl \<Rightarrow> bool" where
  "fl_less a b =
     (case a of
        NaN \<Rightarrow> False
      | Fin x \<Rightarrow> (case b of Fin y \<Rightarrow> x < y | PInf \<Rightarrow> True | NInf \<Rightarrow> False | NaN \<Rightarrow> False)
      | PInf \<Rightarrow> False
      | NInf \<Rightarrow> (case b of Fin y \<Rightarrow> True | PInf \<Rightarrow> True | NInf \<Rightarrow> False | NaN \<Rightarrow> False))"

text \<open>\<^verbatim>\<open>a > b\<close>.\<close>

definition fl_gt :: "fl \<Rightarrow> fl \<Rightarrow> bool" where
  "fl_gt a b = fl_less b a"

text \<open>The binary steps of \<^verbatim>\<open>np.max\<close> and \<^verbatim>\<open>np.min\<close>, which propagate NaN.\<close>

definition fl_max2 :: "fl \<Rightarrow> fl \<Rightarrow> fl" where
  "fl_max2 a b = (if a = NaN \<or> b = NaN then NaN else if fl_less a b then b else a)"

definition fl_min2 :: "fl \<Rightarrow> fl \<Rightarrow> fl" where
  "fl_min2 a b = (if a = NaN \<or> b = NaN then NaN else if fl_less b a then b else a)"

definition fl_abs :: "fl \<Rightarrow> fl" where
  "fl_abs a = (case a of Fin x \<Rightarrow> Fin \<bar>x\<bar> | PInf \<Rightarrow> PInf | NInf \<Rightarrow> PInf | NaN \<Rightarrow> NaN)"

text \<open>The largest finite double, \<^verbatim>\<open>np.finfo(np.float64).max\<close> = (2 - 2^-52) * 2^1023.\<close>

definition float_max :: real where
  "float_max = 2 ^ 1024 - 2 ^ 971"

text \<open>
  \<^verbatim>\<open>np.nan_to_num(x)\<close> with its default arguments (\<^verbatim>\<open>nan=0.0, posinf=None, neginf=None\<close>):
  NaN becomes 0, +infinity the largest finite double and -infinity the most negative one.
\<close>

definition nan_to_num :: "fl \<Rightarrow> fl" where
  "nan_to_num a =
     (case a of Fin x \<Rightarrow> Fin x | PInf \<Rightarrow> Fin float_max | NInf \<Rightarrow> Fin (- float_max)
      | NaN \<Rightarrow> Fin 0)"

definition is_finite :: "fl \<Rightarrow> bool" where
  "is_finite a = (case a of Fin x \<Rightarrow> True | PInf \<Rightarrow> False | NInf \<Rightarrow> False | NaN \<Rightarrow> False)"

section \<open>Two-dimensional arrays and reductions along an axis\<close>

text \<open>
  A two-dimensional array is the list of its rows. \<^verbatim>\<open>procdata\<close> has one row per
  selected voxel and one column per time point; its number of columns
  (\<^verbatim>\<open>procdata.shape[1]\<close>, which is \<^verbatim>\<open>totaltimepoints\<close>) is passed beside it, because an
  array without rows still has columns in numpy.
\<close>

type_synonym matrix = "fl list list"

definition col :: "nat \<Rightarrow> matrix \<Rightarrow> fl list" where
  "col i M = map (\<lambda>r. r ! i) M"

definition wellshaped :: "nat \<Rightarrow> matrix \<Rightarrow> bool" where
  "wellshaped T M = list_all (\<lambda>r. length r = T) M"

datatype exn = Exn (exn_type: string) (exn_args: string)

text \<open>
  How a run can end other than by returning. \<open>SystemExit msg\<close> is \<^verbatim>\<open>print(msg)\<close>
  followed by \<^verbatim>\<open>sys.exit()\<close> or \<^verbatim>\<open>exit()\<close>; \<open>Raised ex\<close> is an exception raised inside a
  collaborator (the image reader, joblib, scikit-learn) that the workflow does not catch,
  with \<open>exn_type\<close> for \<^verbatim>\<open>type(ex).__name__\<close> and \<open>exn_args\<close> for \<^verbatim>\<open>repr(ex.args)\<close>; the
  others are raised by Python or numpy for the workflow's own statements.
\<close>

datatype error =
    SystemExit string
  | NameError string
  | UnboundLocalError string
  | TypeError string
  | ValueError string
  | IndexError string
  | Raised exn

text \<open>
  The sum of one column, as the exact sum of its finite values: the rounding of the
  partial sums and their overflow to an infinity are not modelled.
\<close>

definition np_sum :: "fl list \<Rightarrow> fl" where
  "np_sum xs = foldl fl_add (Fin 0) xs"

text \<open>\<^verbatim>\<open>np.mean\<close> of one column; of no values it is 0/0 = NaN (with a warning).\<close>

definition np_mean :: "fl list \<Rightarrow> fl" where
  "np_mean xs = fl_div (np_sum xs) (Fin (real (length xs)))"

text \<open>\<^verbatim>\<open>np.var\<close> (\<^verbatim>\<open>ddof=0\<close>): the mean of \<^verbatim>\<open>abs(x - x.mean())**2\<close>.\<close>

definition np_var :: "fl list \<Rightarrow> fl" where
  "np_var xs = (let m = np_mean xs in np_mean (map (\<lambda>x. fl_mul (fl_abs (fl_sub x m)) (fl_abs (fl_sub x m))) xs))"

text \<open>
  \<^verbatim>\<open>np.max\<close> and \<^verbatim>\<open>np.min\<close> of a nonempty one-dimensional slice. The callers raise
  ValueError before they reduce a slice of length 0, as numpy does for a reduction with
  no identity.
\<close>

fun np_amax :: "fl list \<Rightarrow> fl" where
  "np_amax [] = NaN"
| "np_amax (x # xs) = foldl fl_max2 x xs"

fun np_amin :: "fl list \<Rightarrow> fl" where
  "np_amin [] = NaN"
| "np_amin (x # xs) = foldl fl_min2 x xs"

definition mean_axis0 :: "nat \<Rightarrow> matrix \<Rightarrow> fl list" where
  "mean_axis0 T M = map (\<lambda>i. np_mean (col i M)) [0..<T]"

definition var_axis0 :: "nat \<Rightarrow> matrix \<Rightarrow> fl list" where
  "var_axis0 T M = map (\<lambda>i. np_var (col i M)) [0..<T]"

definition max_axis0 :: "nat \<Rightarrow> matrix \<Rightarrow> error + fl list" where
  "max_axis0 T M =
     (if M = [] then Inl (ValueError ''zero-size array to reduction operation maximum'')
      else Inr (map (\<lambda>i. np_amax (col i M)) [0..<T]))"

definition min_axis0 :: "nat \<Rightarrow> matrix \<Rightarrow> error + fl list" where
  "min_axis0 T M =
     (if M = [] then Inl (ValueError ''zero-size array to reduction operation minimum'')
      else Inr (map (\<lambda>i. np_amin (col i M)) [0..<T]))"

definition max_axis1 :: "nat \<Rightarrow> matrix \<Rightarrow> error + fl list" where
  "max_axis1 T M =
     (if T = 0 then Inl (ValueError ''zero-size array to reduction operation maximum'')
      else Inr (map np_amax M))"

definition min_axis1 :: "nat \<Rightarrow> matrix \<Rightarrow> error + fl list" where
  "min_axis1 T M =
     (if T = 0 then Inl (ValueError ''zero-size array to reduction operation minimum'')
      else Inr (map np_amin M))"

section \<open>The normaliser (lines 133 to 163)\<close>

text \<open>
  \<^verbatim>\<open>for i in range(procdata.shape[1]): procdata[:, i] -= themean[i]\<close> and the same
  loop with \<^verbatim>\<open>/= thenormfac[i]\<close>: one step updates column \<open>i\<close> of every row.
\<close>

definition sub_col :: "fl list \<Rightarrow> nat \<Rightarrow> matrix \<Rightarrow> matrix" where
  "sub_col themean i M = map (\<lambda>r. r[i := fl_sub (r ! i) (themean ! i)]) M"

definition demean_loop :: "nat \<Rightarrow> fl list \<Rightarrow> matrix \<Rightarrow> matrix" where
  "demean_loop T themean M = fold (sub_col themean) [0..<T] M"

definition div_col :: "fl list \<Rightarrow> nat \<Rightarrow> matrix \<Rightarrow> matrix" where
  "div_col thenormfac i M = map (\<lambda>r. r[i := fl_div (r ! i) (thenormfac ! i)]) M"

definition divide_loop :: "nat \<Rightarrow> fl list \<Rightarrow> matrix \<Rightarrow> matrix" where
  "divide_loop T thenormfac M = fold (div_col thenormfac) [0..<T] M"

text \<open>
  The dispatch on \<^verbatim>\<open>normmethod\<close> (lines 140 to 160), on the array as the demeaning
  step left it. Two library reductions are parameters, each applied to one column
  (\<^verbatim>\<open>axis=0\<close>): \<open>np_std\<close> is \<^verbatim>\<open>np.std\<close>, whose square root has no rational value in
  general, and \<open>mad\<close> is \<^verbatim>\<open>statsmodels.robust.mad\<close>, a median scaled by a quantile of
  the normal distribution.
\<close>

definition normfac :: "(fl list \<Rightarrow> fl) \<Rightarrow> (fl list \<Rightarrow> fl) \<Rightarrow> nat \<Rightarrow> string \<Rightarrow> fl list \<Rightarrow> matrix \<Rightarrow> error + fl list" where
  "normfac np_std mad T normmethod themean procdata =
     (if normmethod = ''None'' then Inr (map (\<lambda>m. fl_add (fl_mul m (Fin 0)) (Fin 1)) themean)
      else if normmethod = ''percent'' then Inr themean
      else if normmethod = ''stddev'' then Inr (map (\<lambda>i. np_std (col i procdata)) [0..<T])
      else if normmethod = ''z'' then Inr (var_axis0 T procdata)
      else if normmethod = ''p2p'' then
        (case max_axis0 T procdata of
           Inl e \<Rightarrow> Inl e
         | Inr mx \<Rightarrow> (case min_axis0 T procdata of
                        Inl e \<Rightarrow> Inl e
                      | Inr mn \<Rightarrow> Inr (map (\<lambda>(a, b). fl_sub a b) (zip mx mn))))
      else if normmethod = ''mad'' then Inr (map (\<lambda>i. mad (col i procdata)) [0..<T])
      else Inl (SystemExit ''illegal normalization type''))"

text \<open>The array after line 138: demeaned when \<^verbatim>\<open>demean\<close> is true.\<close>

definition demeaned :: "nat \<Rightarrow> bool \<Rightarrow> matrix \<Rightarrow> matrix" where
  "demeaned T demean procdata =
     (if demean then demean_loop T (mean_axis0 T procdata) procdata else procdata)"

text \<open>
  Lines 134 to 163. The result is \<^verbatim>\<open>themean\<close>, \<^verbatim>\<open>thenormfac\<close> and the new \<^verbatim>\<open>procdata\<close>.
\<close>

definition normalize :: "(fl list \<Rightarrow> fl) \<Rightarrow> (fl list \<Rightarrow> fl) \<Rightarrow> nat \<Rightarrow> string \<Rightarrow> bool \<Rightarrow> matrix \<Rightarrow> error + (fl list \<times> fl list \<times> matrix)" where
  "normalize np_std mad T normmethod demean procdata =
     (let themean = mean_axis0 T procdata;
          pd = demeaned T demean procdata
      in case normfac np_std mad T normmethod themean pd of
           Inl e \<Rightarrow> Inl e
         | Inr thenormfac \<Rightarrow>
             Inr (themean, thenormfac, map (map nan_to_num) (divide_loop T thenormfac pd)))"

section \<open>Images, collaborators and arguments\<close>

text \<open>
  An image array is its shape and its elements in C (row-major) index order, the order
  \<^verbatim>\<open>reshape\<close> follows. Image arrays have at most four dimensions.
\<close>

record ndarray =
  shape :: "nat list"
  elems :: "fl list"

text \<open>The header, of which the workflow touches only \<^verbatim>\<open>["dim"]\<close>.\<close>

record nifti_hdr =
  hdr_dim :: "nat list"

text \<open>
  What \<^verbatim>\<open>tide_io.readfromnifti\<close> returns (the image handle, which the workflow never
  uses, left out): the data array, the header, \<^verbatim>\<open>thedims\<close> and \<^verbatim>\<open>thesizes\<close>. The
  entries of \<^verbatim>\<open>thedims\<close> are the header's 16-bit integers. \<open>c_contiguous\<close> tells whether
  the data array lies in memory in C order, in which case \<^verbatim>\<open>reshape\<close> returns a view of
  it; of an array in Fortran order, as an image file is laid out, \<^verbatim>\<open>reshape\<close> returns a
  copy.
\<close>

record nifti =
  nim_data :: ndarray
  c_contiguous :: bool
  nim_hdr :: nifti_hdr
  thedims :: "nat list"
  thesizes :: "fl list"

text \<open>The Python values \<^verbatim>\<open>pcacomponents\<close> can hold.\<close>

datatype pyval = PyInt int | PyFloat fl | PyStr string | PyNone

text \<open>
  The calls a run makes to the world outside, in order: images read, models loaded,
  constructed (class name and \<^verbatim>\<open>n_components\<close>), written and fitted. Progress messages
  on standard output are not recorded; the diagnostic printed before an exit is carried
  by \<open>SystemExit\<close>.
\<close>

datatype event =
    ReadNifti "string option"
  | JoblibLoad string
  | Construct string pyval
  | JoblibDump string
  | Fit
  | Transform
  | InverseTransform
  | FastICAFit "int option"

text \<open>
  The collaborators, none of which is under the workflow's control: \<^verbatim>\<open>capcalc.io\<close>,
  \<^verbatim>\<open>capcalc.filter\<close>, numpy's \<^verbatim>\<open>std\<close>, statsmodels' \<^verbatim>\<open>mad\<close>, joblib and scikit-learn.
  \<open>'m\<close> is the type of a decomposition model object; \<open>fit\<close> returns the fitted object
  (\<^verbatim>\<open>fit\<close> returns \<^verbatim>\<open>self\<close>), \<open>components\<close> and \<open>explained_variance_ratio\<close> read its
  attributes \<^verbatim>\<open>components_\<close> and \<^verbatim>\<open>explained_variance_ratio_\<close>, the second of which a
  model class need not have. A two-dimensional array a collaborator takes or returns is
  the list of its rows.
\<close>

record 'm env =
  readfromnifti :: "string option \<Rightarrow> exn + nifti"
  checkspacedimmatch :: "nat list \<Rightarrow> nat list \<Rightarrow> bool"
  checktimematch :: "nat list \<Rightarrow> nat list \<Rightarrow> bool"
  ssmooth :: "fl \<Rightarrow> fl \<Rightarrow> fl \<Rightarrow> fl \<Rightarrow> ndarray \<Rightarrow> ndarray"
  np_std :: "fl list \<Rightarrow> fl"
  mad :: "fl list \<Rightarrow> fl"
  joblib_load :: "string \<Rightarrow> exn + 'm"
  joblib_dump :: "'m \<Rightarrow> string \<Rightarrow> exn + unit"
  new_PCA :: "pyval \<Rightarrow> 'm"
  new_SparsePCA :: "pyval \<Rightarrow> 'm"
  fit :: "'m \<Rightarrow> matrix \<Rightarrow> exn + 'm"
  transform :: "'m \<Rightarrow> matrix \<Rightarrow> exn + matrix"
  inverse_transform :: "'m \<Rightarrow> matrix \<Rightarrow> exn + matrix"
  components :: "'m \<Rightarrow> matrix"
  explained_variance_ratio :: "'m \<Rightarrow> exn + fl list"
  fastica_fit :: "int option \<Rightarrow> matrix \<Rightarrow> exn + matrix"

text \<open>
  The parameters of \<^verbatim>\<open>niftidecomp_workflow\<close>. \<open>theprefilter\<close> is the filter object's
  \<^verbatim>\<open>apply(sample_rate, series)\<close>, or \<open>None\<close>.
\<close>

record args =
  datafilelist :: "string list"
  outputroot :: string
  datamaskname :: "string option"
  decomptype :: string
  pcacomponents :: pyval
  icacomponents :: "int option"
  trainedmodelroot :: "string option"
  normmethod :: string
  demean :: bool
  theprefilter :: "(fl \<Rightarrow> fl list \<Rightarrow> fl list) option"
  sigma :: fl
  maskthresh :: fl

section \<open>Runs: a trace of calls and an outcome\<close>

type_synonym 'a io = "event list \<times> (error + 'a)"

definition io_ret :: "'a \<Rightarrow> 'a io" where
  "io_ret x = ([], Inr x)"

definition io_raise :: "error \<Rightarrow> 'a io" where
  "io_raise e = ([], Inl e)"

definition io_lift :: "error + 'a \<Rightarrow> 'a io" where
  "io_lift r = ([], r)"

text \<open>A call to a collaborator: the call is recorded, its exception propagates.\<close>

definition io_call :: "event \<Rightarrow> exn + 'a \<Rightarrow> 'a io" where
  "io_call ev r = ([ev], case r of Inl ex \<Rightarrow> Inl (Raised ex) | Inr x \<Rightarrow> Inr x)"

definition io_bind :: "'a io \<Rightarrow> ('a \<Rightarrow> 'b io) \<Rightarrow> 'b io" where
  "io_bind m f =
     (case snd m of
        Inl e \<Rightarrow> (fst m, Inl e)
      | Inr x \<Rightarrow> (fst m @ fst (f x), snd (f x)))"

fun fold_err :: "('a \<Rightarrow> 's \<Rightarrow> error + 's) \<Rightarrow> 'a list \<Rightarrow> 's \<Rightarrow> error + 's" where
  "fold_err f [] s = Inr s"
| "fold_err f (x # xs) s = (case f x s of Inl e \<Rightarrow> Inl e | Inr s' \<Rightarrow> fold_err f xs s')"

section \<open>Array helpers\<close>

text \<open>
  Modelled from the spec: \<^verbatim>\<open>capcalc.io.parseniftidims\<close> is not under src/. The spec
  gives \<^verbatim>\<open>parse_dims(dims) -> (x, y, slices, timepoints)\<close>; the positions are those of
  the list \<^verbatim>\<open>[1, xsize, ysize, numslices, 1]\<close> of line 123 and of \<^verbatim>\<open>["dim"][4]\<close>, to
  which line 245 writes a number of time points.
\<close>

definition parseniftidims :: "nat list \<Rightarrow> error + (nat \<times> nat \<times> nat \<times> nat)" where
  "parseniftidims dims =
     (if length dims < 5 then Inl (IndexError ''index out of range'')
      else Inr (dims ! 1, dims ! 2, dims ! 3, dims ! 4))"

text \<open>
  Modelled from the spec: \<^verbatim>\<open>capcalc.io.parseniftisizes\<close> is not under src/. The spec
  gives \<^verbatim>\<open>parse_sizes(sizes) -> (xdim, ydim, slice_thickness, tr)\<close>, laid out as the dims.
\<close>

definition parseniftisizes :: "fl list \<Rightarrow> error + (fl \<times> fl \<times> fl \<times> fl)" where
  "parseniftisizes sizes =
     (if length sizes < 5 then Inl (IndexError ''index out of range'')
      else Inr (sizes ! 1, sizes ! 2, sizes ! 3, sizes ! 4))"

text \<open>\<^verbatim>\<open>a.reshape((n))\<close>: the elements, when there are \<open>n\<close> of them.\<close>

definition reshape1 :: "nat \<Rightarrow> ndarray \<Rightarrow> error + fl list" where
  "reshape1 n a =
     (if length (elems a) = n then Inr (elems a)
      else Inl (ValueError ''cannot reshape array''))"

text \<open>\<^verbatim>\<open>a.reshape((n, m))\<close>: \<open>n\<close> rows of \<open>m\<close> consecutive elements.\<close>

definition reshape2 :: "nat \<Rightarrow> nat \<Rightarrow> ndarray \<Rightarrow> error + matrix" where
  "reshape2 n m a =
     (if length (elems a) = n * m then Inr (map (\<lambda>i. take m (drop (i * m) (elems a))) [0..<n])
      else Inl (ValueError ''cannot reshape array''))"

text \<open>
  \<^verbatim>\<open>M.reshape((x, y, z, k))\<close> of an array \<open>M\<close> with \<open>n\<close> rows and \<open>k\<close> columns: the same
  elements in the same order under a new shape.
\<close>

definition reshape4 :: "nat \<Rightarrow> nat \<Rightarrow> nat \<Rightarrow> nat \<Rightarrow> nat \<Rightarrow> matrix \<Rightarrow> error + ndarray" where
  "reshape4 x y z k n M =
     (if n * k = x * y * z * k then Inr \<lparr>shape = [x, y, z, k], elems = concat M\<rparr>
      else Inl (ValueError ''cannot reshape array''))"

text \<open>The element \<^verbatim>\<open>a[ix, iy, iz, f]\<close> of a four-dimensional array.\<close>

definition at4 :: "ndarray \<Rightarrow> nat \<Rightarrow> nat \<Rightarrow> nat \<Rightarrow> nat \<Rightarrow> fl" where
  "at4 a ix iy iz f =
     elems a ! (((ix * (shape a ! 1) + iy) * (shape a ! 2) + iz) * (shape a ! 3) + f)"

text \<open>\<^verbatim>\<open>np.where(cond)\<close> of a one-dimensional condition: the indices where it holds.\<close>

definition np_where :: "bool list \<Rightarrow> nat list" where
  "np_where bs = filter (\<lambda>i. bs ! i) [0..<length bs]"

text \<open>
  \<^verbatim>\<open>np.transpose\<close> of an array with \<open>m\<close> columns: \<open>m\<close> rows, the columns of the argument.
\<close>

definition transpose_m :: "nat \<Rightarrow> matrix \<Rightarrow> matrix" where
  "transpose_m m M = map (\<lambda>j. col j M) [0..<m]"

text \<open>
  The number of columns of an array a collaborator returned as the list of its rows (of
  an array without rows, 0).
\<close>

definition ncols_of :: "matrix \<Rightarrow> nat" where
  "ncols_of M = (case M of [] \<Rightarrow> 0 | r # rs \<Rightarrow> length r)"

text \<open>
  \<^verbatim>\<open>out = np.zeros((numspatiallocs, k)); out[proclocs, :] = vals[:, :]\<close>
  (lines 227 to 228 and 246 to 247): row \<open>j\<close> of \<open>vals\<close> goes to row \<open>proclocs[j]\<close>.
\<close>

definition scatter :: "nat \<Rightarrow> nat \<Rightarrow> nat list \<Rightarrow> matrix \<Rightarrow> matrix" where
  "scatter numspatiallocs k proclocs vals =
     fold (\<lambda>(p, r) out. out[p := r]) (zip proclocs vals)
       (replicate numspatiallocs (replicate k (Fin 0)))"

text \<open>
  The reassembly of lines 227 to 231 and 246 to 248: scatter into a zero array with
  \<open>numspatiallocs\<close> rows, then reshape to \<open>(xs, ys, ns, k)\<close>.
\<close>

definition reassemble :: "nat \<Rightarrow> nat \<Rightarrow> nat \<Rightarrow> nat \<Rightarrow> nat \<Rightarrow> nat list \<Rightarrow> matrix \<Rightarrow> error + ndarray" where
  "reassemble xs ys ns k numspatiallocs proclocs vals =
     reshape4 xs ys ns k numspatiallocs (scatter numspatiallocs k proclocs vals)"

text \<open>\<^verbatim>\<open>xs[0:n]\<close> for an integer \<open>n\<close>; a negative \<open>n\<close> counts from the end.\<close>

definition slice_to :: "int \<Rightarrow> 'a list \<Rightarrow> 'a list" where
  "slice_to n xs = (if 0 \<le> n then take (nat n) xs else take (length xs - nat (- n)) xs)"

section \<open>The mask (lines 49 to 67)\<close>

text \<open>
  The mask is read whatever \<^verbatim>\<open>datamaskname\<close> is. The result is \<^verbatim>\<open>datamaskdims\<close>,
  \<^verbatim>\<open>numspatiallocs\<close> and \<^verbatim>\<open>proclocs\<close>.
\<close>

definition read_mask :: "'m env \<Rightarrow> args \<Rightarrow> (nat list \<times> nat \<times> nat list) io" where
  "read_mask env a =
     io_bind (io_call (ReadNifti (datamaskname a)) (readfromnifti env (datamaskname a)))
       (\<lambda>datamask.
     io_bind (io_lift (parseniftidims (thedims datamask)))
       (\<lambda>(xs, ys, ns, mask_timepoints).
     if mask_timepoints = 1 then
       io_bind (io_lift (reshape1 (xs * ys * ns) (nim_data datamask)))
         (\<lambda>themask.
       io_ret (thedims datamask, xs * ys * ns,
               np_where (map (\<lambda>v. fl_gt v (maskthresh a)) themask)))
     else io_raise (SystemExit ''mask must have only 3 dimensions'')))"

section \<open>Reading and stacking the data files (lines 69 to 112)\<close>

text \<open>
  The variables the loop leaves behind: the geometry taken from the first file, the
  stacked array \<^verbatim>\<open>rs_datafile\<close>, and the header, dims and sizes of the last file read.
\<close>

record stacked =
  xsize :: nat
  ysize :: nat
  numslices :: nat
  timepoints :: nat
  xdim :: fl
  ydim :: fl
  slicethickness :: fl
  tr :: fl
  totaltimepoints :: nat
  originaldatafiledims :: "nat list"
  rs_datafile :: matrix
  datafile_hdr :: nifti_hdr
  datafiledims :: "nat list"
  datafilesizes :: "fl list"

text \<open>\<^verbatim>\<open>a[:, :, :, i]\<close>, read and assigned.\<close>

definition get_frame :: "ndarray \<Rightarrow> nat \<Rightarrow> error + ndarray" where
  "get_frame a i =
     (case shape a of
        [x, y, z, t] \<Rightarrow>
          if i < t then Inr \<lparr>shape = [x, y, z], elems = map (\<lambda>s. elems a ! (s * t + i)) [0..<x * y * z]\<rparr>
          else Inl (IndexError ''index out of bounds for axis 3'')
      | _ \<Rightarrow> Inl (IndexError ''too many indices for array''))"

text \<open>
  The assigned frame must have the frame's shape (numpy's broadcasting of a smaller
  array is not modelled).
\<close>

definition set_frame :: "ndarray \<Rightarrow> nat \<Rightarrow> ndarray \<Rightarrow> error + ndarray" where
  "set_frame a i new =
     (case shape a of
        [x, y, z, t] \<Rightarrow>
          if shape new = [x, y, z] \<and> length (elems new) = x * y * z then
            Inr (a\<lparr>elems := fold (\<lambda>s es. es[s * t + i := elems new ! s]) [0..<x * y * z] (elems a)\<rparr>)
          else Inl (ValueError ''could not broadcast input array'')
      | _ \<Rightarrow> Inl (IndexError ''too many indices for array''))"

text \<open>Lines 96 to 101.\<close>

definition smooth_step :: "'m env \<Rightarrow> stacked \<Rightarrow> fl \<Rightarrow> ndarray \<Rightarrow> error + ndarray" where
  "smooth_step env g sg datafile_data =
     (if fl_gt sg (Fin 0) then
        fold_err
          (\<lambda>i d. case get_frame d i of
                    Inl e \<Rightarrow> Inl e
                  | Inr frame \<Rightarrow>
                      set_frame d i (ssmooth env (xdim g) (ydim g) (slicethickness g) sg frame))
          [0..<timepoints g] datafile_data
      else Inr datafile_data)"

text \<open>
  Lines 104 to 108: \<^verbatim>\<open>rs_singlefile\<close> with every row filtered, as an array of the shape
  of \<^verbatim>\<open>datafile_data\<close>. Whether \<^verbatim>\<open>datafile_data\<close> itself changes is decided where this
  is used. \<^verbatim>\<open>1.0 / tr\<close> is numpy's division, \<^verbatim>\<open>tr\<close> being an entry of the sizes array.
\<close>

definition filter_rows :: "(fl \<Rightarrow> fl list \<Rightarrow> fl list) \<Rightarrow> fl \<Rightarrow> nat \<Rightarrow> nat \<Rightarrow> ndarray \<Rightarrow> error + ndarray" where
  "filter_rows apply_filter t n tp datafile_data =
     (case reshape2 n tp datafile_data of
        Inl e \<Rightarrow> Inl e
      | Inr rs_singlefile \<Rightarrow>
          (case fold_err
                  (\<lambda>i rs. let new = apply_filter (fl_div (Fin 1) t) (rs ! i)
                          in if length new = tp then Inr (rs[i := new])
                             else Inl (ValueError ''could not broadcast input array''))
                  [0..<n] rs_singlefile of
             Inl e \<Rightarrow> Inl e
           | Inr rs \<Rightarrow> Inr (datafile_data\<lparr>elems := concat rs\<rparr>)))"

text \<open>
  numpy's 16-bit integer arithmetic: \<^verbatim>\<open>timepoints\<close> is an entry of \<^verbatim>\<open>thedims\<close>, and
  its products with a Python integer (lines 85 and 110) wrap around, with a warning.
\<close>

definition wrap16 :: "int \<Rightarrow> int" where
  "wrap16 n = (n + 32768) mod 65536 - 32768"

text \<open>
  The columns \<^verbatim>\<open>lo:hi\<close> of an array with \<open>L\<close> columns, as first column and width: a
  negative bound counts from the end and both are clipped.
\<close>

definition slice_cols :: "int \<Rightarrow> int \<Rightarrow> nat \<Rightarrow> nat \<times> nat" where
  "slice_cols lo hi L =
     (let s = (if lo < 0 then max 0 (lo + int L) else min lo (int L));
          e = (if hi < 0 then max 0 (hi + int L) else min hi (int L))
      in (nat s, nat (max 0 (e - s))))"

text \<open>\<^verbatim>\<open>rs[:, off:off + w] = block\<close> for a block of \<open>w\<close> columns.\<close>

definition place_block :: "nat \<Rightarrow> nat \<Rightarrow> matrix \<Rightarrow> matrix \<Rightarrow> matrix" where
  "place_block off w block rs = map (\<lambda>(r, b). take off r @ b @ drop (off + w) r) (zip rs block)"

text \<open>
  \<^verbatim>\<open>rs[:, lo:hi] = block\<close> (line 110) for a block of \<open>tp\<close> columns and an array of \<open>L\<close>
  columns: the widths must agree, except that a block of one column is broadcast over
  the slice.
\<close>

definition assign_block :: "int \<Rightarrow> int \<Rightarrow> nat \<Rightarrow> nat \<Rightarrow> matrix \<Rightarrow> matrix \<Rightarrow> error + matrix" where
  "assign_block lo hi tp L block rs =
     (case slice_cols lo hi L of
        (s, w) \<Rightarrow>
          if w = tp then Inr (place_block s w block rs)
          else if tp = 1 then
            Inr (map (\<lambda>(r, b). take s r @ replicate w (hd b) @ drop (s + w) r) (zip rs block))
          else Inl (ValueError ''could not broadcast input array''))"

text \<open>
  One pass of the loop body, for the file at position \<open>idx\<close>. The state is \<open>None\<close> before
  the first file, which is when \<^verbatim>\<open>idx == 0\<close>. A negative \<^verbatim>\<open>totaltimepoints\<close> is refused
  by \<^verbatim>\<open>np.zeros\<close> at line 87. The filter writes to \<^verbatim>\<open>rs_singlefile\<close>; the data stacked
  at line 110 are those of \<^verbatim>\<open>datafile_data\<close>, which the filter has changed only if
  \<^verbatim>\<open>rs_singlefile\<close> is a view of it.
\<close>

definition stack_file :: "'m env \<Rightarrow> args \<Rightarrow> nat \<Rightarrow> nat \<Rightarrow> nat \<Rightarrow> string \<Rightarrow> stacked option \<Rightarrow> stacked io" where
  "stack_file env a numspatiallocs numfiles idx datafile st =
     io_bind (io_call (ReadNifti (Some datafile)) (readfromnifti env (Some datafile)))
       (\<lambda>f.
     io_bind
       (case st of
          None \<Rightarrow>
            io_bind (io_lift (parseniftidims (thedims f)))
              (\<lambda>(xs, ys, ns, tp).
            io_bind (io_lift (parseniftisizes (thesizes f)))
              (\<lambda>(xd, yd, sl, t).
            if wrap16 (int tp * int numfiles) < 0
            then io_raise (ValueError ''negative dimensions are not allowed'')
            else
            io_ret \<lparr>xsize = xs, ysize = ys, numslices = ns, timepoints = tp,
                    xdim = xd, ydim = yd, slicethickness = sl, tr = t,
                    totaltimepoints = nat (wrap16 (int tp * int numfiles)),
                    originaldatafiledims = thedims f,
                    rs_datafile = replicate numspatiallocs
                                    (replicate (nat (wrap16 (int tp * int numfiles))) (Fin 0)),
                    datafile_hdr = nim_hdr f, datafiledims = thedims f,
                    datafilesizes = thesizes f\<rparr>))
        | Some g \<Rightarrow>
            if \<not> checkspacedimmatch env (thedims f) (originaldatafiledims g)
               \<or> \<not> checktimematch env (thedims f) (originaldatafiledims g)
            then io_raise (SystemExit ''all input data files must have the same dimensions'')
            else io_ret (g\<lparr>datafile_hdr := nim_hdr f, datafiledims := thedims f,
                           datafilesizes := thesizes f\<rparr>))
       (\<lambda>g.
     io_bind (io_lift (smooth_step env g (sigma a) (nim_data f)))
       (\<lambda>d1.
     io_bind (io_lift (case theprefilter a of
                         None \<Rightarrow> Inr d1
                       | Some ap \<Rightarrow>
                           (case filter_rows ap (tr g) numspatiallocs (timepoints g) d1 of
                              Inl e \<Rightarrow> Inl e
                            | Inr filtered \<Rightarrow> Inr (if c_contiguous f then filtered else d1))))
       (\<lambda>d2.
     io_bind (io_lift (if length (shape d2) < 4 then Inl (IndexError ''too many indices for array'')
                       else reshape2 numspatiallocs (timepoints g) d2))
       (\<lambda>block.
     io_bind (io_lift (assign_block (wrap16 (int idx * int (timepoints g)))
                         (wrap16 (int (Suc idx) * int (timepoints g)))
                         (timepoints g) (totaltimepoints g) block (rs_datafile g)))
       (\<lambda>rs. io_ret (g\<lparr>rs_datafile := rs\<rparr>)))))))"

fun stack_loop :: "'m env \<Rightarrow> args \<Rightarrow> nat \<Rightarrow> nat \<Rightarrow> nat \<Rightarrow> string list \<Rightarrow> stacked option \<Rightarrow> stacked option io" where
  "stack_loop env a numspatiallocs numfiles idx [] st = io_ret st"
| "stack_loop env a numspatiallocs numfiles idx (datafile # rest) st =
     io_bind (stack_file env a numspatiallocs numfiles idx datafile st)
       (\<lambda>g. stack_loop env a numspatiallocs numfiles (Suc idx) rest (Some g))"

section \<open>Voxel selection (lines 114 to 128)\<close>

text \<open>
  With a mask name the mask's geometry is checked against the last file's and the
  mask's \<^verbatim>\<open>proclocs\<close> stands; without one \<^verbatim>\<open>proclocs\<close> is recomputed from the range of
  each voxel. With no data file the names the loop would have bound are unbound.
\<close>

definition select_voxels :: "'m env \<Rightarrow> args \<Rightarrow> nat list \<Rightarrow> nat list \<Rightarrow> stacked option \<Rightarrow> (nat list \<times> stacked) io" where
  "select_voxels env a datamaskdims proclocs st =
     (case datamaskname a of
        Some name \<Rightarrow>
          (case st of
             None \<Rightarrow> io_raise (UnboundLocalError ''datafiledims'')
           | Some g \<Rightarrow>
               if \<not> checkspacedimmatch env (datafiledims g) datamaskdims
               then io_raise (SystemExit ''input mask spatial dimensions do not match image'')
               else io_ret (proclocs, g))
      | None \<Rightarrow>
          (case st of
             None \<Rightarrow> io_raise (UnboundLocalError ''rs_datafile'')
           | Some g \<Rightarrow>
               io_bind (io_lift (max_axis1 (totaltimepoints g) (rs_datafile g)))
                 (\<lambda>themaxes.
               io_bind (io_lift (min_axis1 (totaltimepoints g) (rs_datafile g)))
                 (\<lambda>themins.
               io_ret (np_where (map (\<lambda>(mx, mn). fl_gt (fl_sub mx mn) (Fin 0))
                                     (zip themaxes themins)), g)))))"

text \<open>
  Lines 49 to 131: \<^verbatim>\<open>numspatiallocs\<close>, \<^verbatim>\<open>proclocs\<close>, the loop's variables and
  \<^verbatim>\<open>procdata = rs_datafile[proclocs, :][0]\<close>.
\<close>

definition load_data :: "'m env \<Rightarrow> args \<Rightarrow> (nat \<times> nat list \<times> stacked \<times> matrix) io" where
  "load_data env a =
     io_bind (read_mask env a)
       (\<lambda>(datamaskdims, numspatiallocs, masklocs).
     io_bind (stack_loop env a numspatiallocs (length (datafilelist a)) 0 (datafilelist a) None)
       (\<lambda>st.
     io_bind (select_voxels env a datamaskdims masklocs st)
       (\<lambda>(proclocs, g).
     io_ret (numspatiallocs, proclocs, g, map (\<lambda>p. rs_datafile g ! p) proclocs))))"

text \<open>
  Lines 49 to 163: the above followed by the normaliser, which adds \<^verbatim>\<open>themean\<close> and
  \<^verbatim>\<open>thenormfac\<close> and replaces \<^verbatim>\<open>procdata\<close>.
\<close>

definition prelude :: "'m env \<Rightarrow> args \<Rightarrow> (nat \<times> nat list \<times> stacked \<times> fl list \<times> fl list \<times> matrix) io" where
  "prelude env a =
     io_bind (load_data env a)
       (\<lambda>(numspatiallocs, proclocs, g, procdata).
     io_bind (io_lift (normalize (np_std env) (mad env) (totaltimepoints g) (normmethod a)
                         (demean a) procdata))
       (\<lambda>(themean, thenormfac, normed).
     io_ret (numspatiallocs, proclocs, g, themean, thenormfac, normed)))"

section \<open>The decomposition (lines 165 to 257)\<close>

definition io_emit :: "event \<Rightarrow> unit io" where
  "io_emit ev = ([ev], Inr ())"

text \<open>
  Python's \<^verbatim>\<open><\<close> between \<^verbatim>\<open>pcacomponents\<close> and a float literal: defined for numbers
  (an int compares by its exact value), a TypeError for a string or \<^verbatim>\<open>None\<close>.
\<close>

definition num_of :: "pyval \<Rightarrow> fl option" where
  "num_of p =
     (case p of PyInt n \<Rightarrow> Some (Fin (of_int n)) | PyFloat x \<Rightarrow> Some x | PyStr s \<Rightarrow> None
      | PyNone \<Rightarrow> None)"

definition lt_float :: "pyval \<Rightarrow> fl \<Rightarrow> error + bool" where
  "lt_float p c =
     (case num_of p of
        None \<Rightarrow> Inl (TypeError ''< not supported between these instances'')
      | Some x \<Rightarrow> Inr (fl_less x c))"

definition float_lt :: "fl \<Rightarrow> pyval \<Rightarrow> error + bool" where
  "float_lt c p =
     (case num_of p of
        None \<Rightarrow> Inl (TypeError ''< not supported between these instances'')
      | Some x \<Rightarrow> Inr (fl_less c x))"

text \<open>
  Lines 196 to 204: the value of \<^verbatim>\<open>pcacomponents\<close> after them. The chained comparison
  \<^verbatim>\<open>0.0 < pcacomponents < 1.0\<close> evaluates its second half only when the first holds.
\<close>

definition choose_ncomp :: "pyval \<Rightarrow> error + pyval" where
  "choose_ncomp p =
     (case float_lt (Fin 0) p of
        Inl e \<Rightarrow> Inl e
      | Inr c1 \<Rightarrow>
          (case (if c1 then lt_float p (Fin 1) else Inr False) of
             Inl e \<Rightarrow> Inl e
           | Inr c2 \<Rightarrow>
               if c2 then Inr p
               else (case lt_float p (Fin 0) of
                       Inl e \<Rightarrow> Inl e
                     | Inr c3 \<Rightarrow> Inr (if c3 then PyStr ''mle'' else p))))"

text \<open>The diagnostic of lines 188 to 191.\<close>

definition load_message :: "string \<Rightarrow> string \<Rightarrow> string \<Rightarrow> string" where
  "load_message tyname modelfilename arguments =
     ''An exception of type '' @ tyname @ '' occurred when trying to open '' @ modelfilename
       @ ''. Arguments:'' @ [CHR 0x0A] @ arguments"

text \<open>
  Lines 182 to 211: the model object and the value of \<^verbatim>\<open>pcacomponents\<close> from here on.
  \<^verbatim>\<open>except Exception\<close> catches what \<^verbatim>\<open>joblib.load\<close> raises.
\<close>

definition get_model :: "'m env \<Rightarrow> args \<Rightarrow> ('m \<times> pyval) io" where
  "get_model env a =
     (case trainedmodelroot a of
        Some trainedroot \<Rightarrow>
          (let modelfilename = trainedroot @ ''_pca.joblib''
           in case joblib_load env modelfilename of
                Inl ex \<Rightarrow>
                  ([JoblibLoad modelfilename],
                   Inl (SystemExit (load_message (exn_type ex) modelfilename (exn_args ex))))
              | Inr thepca \<Rightarrow> ([JoblibLoad modelfilename], Inr (thepca, pcacomponents a)))
      | None \<Rightarrow>
          io_bind (io_lift (choose_ncomp (pcacomponents a)))
            (\<lambda>p.
          io_bind (if decomptype a = ''pca''
                   then io_bind (io_emit (Construct ''PCA'' p)) (\<lambda>u. io_ret (new_PCA env p))
                   else io_bind (io_emit (Construct ''SparsePCA'' p))
                          (\<lambda>u. io_ret (new_SparsePCA env p)))
            (\<lambda>thepca.
          io_bind (io_call (JoblibDump (outputroot a @ ''_pca.joblib''))
                     (joblib_dump env thepca (outputroot a @ ''_pca.joblib'')))
            (\<lambda>u. io_ret (thepca, p)))))"

text \<open>
  Lines 217 to 221: the rows of \<^verbatim>\<open>components_\<close> kept. A slice bound must be an integer.
\<close>

definition retain :: "pyval \<Rightarrow> matrix \<Rightarrow> error + matrix" where
  "retain p comps =
     (case lt_float p (Fin 1) of
        Inl e \<Rightarrow> Inl e
      | Inr c \<Rightarrow>
          if c then Inr comps
          else (case p of
                  PyInt n \<Rightarrow> Inr (slice_to n comps)
                | PyFloat x \<Rightarrow> Inl (TypeError ''slice indices must be integers'')
                | PyStr s \<Rightarrow> Inl (TypeError ''slice indices must be integers'')
                | PyNone \<Rightarrow> Inr comps))"

text \<open>\<^verbatim>\<open>theheader["dim"][4] = n\<close>.\<close>

definition set_dim4 :: "nifti_hdr \<Rightarrow> nat \<Rightarrow> error + nifti_hdr" where
  "set_dim4 h n =
     (if length (hdr_dim h) < 5 then Inl (IndexError ''index out of range'')
      else Inr (h\<lparr>hdr_dim := (hdr_dim h)[4 := n]\<rparr>))"

text \<open>The tuple the function returns.\<close>

record result =
  outputcomponents :: ndarray
  outputcoefficients :: matrix
  outinvtrans :: ndarray
  exp_var_pct :: "fl list"
  out_hdr :: nifti_hdr
  out_dims :: "nat list"
  out_sizes :: "fl list"

text \<open>
  Lines 182 to 257, the branch for every \<^verbatim>\<open>decomptype\<close> other than \<^verbatim>\<open>"ica"\<close>.
  scikit-learn's arrays are taken at their documented shapes: \<^verbatim>\<open>components_\<close> has one
  column per voxel of \<^verbatim>\<open>procdata\<close>, and \<^verbatim>\<open>inverse_transform\<close> returns one row per time
  point and one column per voxel. The loop of lines 240 to 241 reads the name
  \<^verbatim>\<open>thevar\<close>, which nothing binds, in its first pass.
\<close>

definition pca_path :: "'m env \<Rightarrow> args \<Rightarrow> nat \<times> nat list \<times> stacked \<times> fl list \<times> fl list \<times> matrix \<Rightarrow> result io" where
  "pca_path env a prep =
     (case prep of (numspatiallocs, proclocs, g, themean, thenormfac, procdata) \<Rightarrow>
        io_bind (get_model env a)
          (\<lambda>(thepca, ncomp).
        io_bind (io_call Fit (fit env thepca (transpose_m (totaltimepoints g) procdata)))
          (\<lambda>thefit.
        io_bind (io_call Transform
                   (transform env thefit (transpose_m (totaltimepoints g) procdata)))
          (\<lambda>thetransform.
        io_bind (io_call InverseTransform (inverse_transform env thefit thetransform))
          (\<lambda>inv.
        io_bind (io_lift (retain ncomp (components env thefit)))
          (\<lambda>kept.
        io_bind (io_lift (case explained_variance_ratio env thefit of
                            Inl ex \<Rightarrow> Inl (Raised ex)
                          | Inr ratio \<Rightarrow> Inr (map (fl_mul (Fin 100)) ratio)))
          (\<lambda>pct.
        io_bind (io_lift (reassemble (xsize g) (ysize g) (numslices g) (length kept)
                            numspatiallocs proclocs (transpose_m (length proclocs) kept)))
          (\<lambda>comps4.
        io_bind (if 0 < totaltimepoints g then io_raise (NameError ''thevar'')
                 else io_ret (transpose_m (length proclocs) inv))
          (\<lambda>theinvtrans.
        io_bind (io_lift (set_dim4 (datafile_hdr g) (length inv)))
          (\<lambda>theheader.
        io_bind (io_lift (reassemble (xsize g) (ysize g) (numslices g) (length inv)
                            numspatiallocs proclocs theinvtrans))
          (\<lambda>inv4.
        io_ret \<lparr>outputcomponents = comps4,
                outputcoefficients = transpose_m (ncols_of thetransform) thetransform,
                outinvtrans = inv4, exp_var_pct = pct, out_hdr = theheader,
                out_dims = datafiledims g, out_sizes = datafilesizes g\<rparr>)))))))))))"

text \<open>
  Lines 166 to 180 and the return statement, for \<^verbatim>\<open>decomptype == "ica"\<close>. The branch
  binds \<^verbatim>\<open>thefit\<close> and \<^verbatim>\<open>thecomponents\<close> (a slice and a transposition, which cannot
  fail) and nothing else; the return statement then reads \<^verbatim>\<open>outputcomponents\<close> first.
\<close>

definition ica_path :: "'m env \<Rightarrow> args \<Rightarrow> nat \<times> nat list \<times> stacked \<times> fl list \<times> fl list \<times> matrix \<Rightarrow> result io" where
  "ica_path env a prep =
     (case prep of (numspatiallocs, proclocs, g, themean, thenormfac, procdata) \<Rightarrow>
        io_bind (io_call (FastICAFit (icacomponents a))
                   (fastica_fit env (icacomponents a)
                      (transpose_m (totaltimepoints g) procdata)))
          (\<lambda>comps. io_raise (UnboundLocalError ''outputcomponents'')))"

definition niftidecomp_workflow :: "'m env \<Rightarrow> args \<Rightarrow> result io" where
  "niftidecomp_workflow env a =
     io_bind (prelude env a)
       (\<lambda>prep. if decomptype a = ''ica'' then ica_path env a prep else pca_path env a prep)"

text \<open>
  The defaults of the signature (lines 31 to 44), for a list of data files and an output
  root.
\<close>

definition default_args :: "string list \<Rightarrow> string \<Rightarrow> args" where
  "default_args files out =
     \<lparr>datafilelist = files, outputroot = out, datamaskname = None, decomptype = ''pca'',
      pcacomponents = PyFloat (Fin (1 / 2)), icacomponents = None, trainedmodelroot = None,
      normmethod = ''None'', demean = True, theprefilter = None, sigma = Fin 0,
      maskthresh = Fin (1 / 4)\<rparr>"

text \<open>An event that reads an image, as opposed to one that touches a model.\<close>

definition is_read :: "event \<Rightarrow> bool" where
  "is_read ev = (case ev of ReadNifti p \<Rightarrow> True | _ \<Rightarrow> False)"

section \<open>A concrete setting\<close>

text \<open>
  Two voxels. The store holds a three-dimensional mask that selects voxel 0, a mask with
  two time points, and a data file with two time points, all laid out in Fortran order;
  no model file exists. The decomposition is the identity: every voxel is a component.
  FastICA refuses an array without features, as scikit-learn's input check does.
\<close>

definition demo_mask :: nifti where
  "demo_mask = \<lparr>nim_data = \<lparr>shape = [2, 1, 1], elems = [Fin 1, Fin 0]\<rparr>,
                 c_contiguous = False,
                 nim_hdr = \<lparr>hdr_dim = [3, 2, 1, 1, 1, 1, 1, 1]\<rparr>,
                 thedims = [3, 2, 1, 1, 1, 1, 1, 1],
                 thesizes = [Fin 1, Fin 1, Fin 1, Fin 1, Fin 1, Fin 1, Fin 1, Fin 1]\<rparr>"

definition demo_mask4d :: nifti where
  "demo_mask4d = \<lparr>nim_data = \<lparr>shape = [2, 1, 1, 2], elems = [Fin 1, Fin 1, Fin 0, Fin 0]\<rparr>,
                 c_contiguous = False,
                 nim_hdr = \<lparr>hdr_dim = [4, 2, 1, 1, 2, 1, 1, 1]\<rparr>,
                 thedims = [4, 2, 1, 1, 2, 1, 1, 1],
                 thesizes = [Fin 1, Fin 1, Fin 1, Fin 1, Fin 2, Fin 1, Fin 1, Fin 1]\<rparr>"

definition demo_data :: nifti where
  "demo_data = \<lparr>nim_data = \<lparr>shape = [2, 1, 1, 2], elems = [Fin 1, Fin 3, Fin 5, Fin 5]\<rparr>,
                 c_contiguous = False,
                 nim_hdr = \<lparr>hdr_dim = [4, 2, 1, 1, 2, 1, 1, 1]\<rparr>,
                 thedims = [4, 2, 1, 1, 2, 1, 1, 1],
                 thesizes = [Fin 1, Fin 1, Fin 1, Fin 1, Fin 2, Fin 1, Fin 1, Fin 1]\<rparr>"

text \<open>
  A reader over that store. A path that names no image raises, and so does the absence
  of a path: \<^verbatim>\<open>None\<close> is not a file name.
\<close>

definition demo_read :: "string option \<Rightarrow> exn + nifti" where
  "demo_read path =
     (case path of
        None \<Rightarrow> Inl (Exn ''TypeError'' ''expected str, bytes or os.PathLike object, not NoneType'')
      | Some name \<Rightarrow>
          (case map_of [(''mask'', demo_mask), (''mask4d'', demo_mask4d), (''data'', demo_data)] name of
             None \<Rightarrow> Inl (Exn ''FileNotFoundError'' name)
           | Some im \<Rightarrow> Inr im))"

definition identity_rows :: "nat \<Rightarrow> matrix" where
  "identity_rows n = map (\<lambda>i. map (\<lambda>j. if i = j then Fin 1 else Fin 0) [0..<n]) [0..<n]"

definition demo_env :: "matrix env" where
  "demo_env = \<lparr>readfromnifti = demo_read,
                checkspacedimmatch = (\<lambda>d1 d2. take 3 (drop 1 d1) = take 3 (drop 1 d2)),
                checktimematch = (\<lambda>d1 d2. d1 ! 4 = d2 ! 4),
                ssmooth = (\<lambda>xd yd sl sg frame. frame),
                np_std = (\<lambda>c. Fin 1),
                mad = (\<lambda>c. Fin 1),
                joblib_load = (\<lambda>name. Inl (Exn ''FileNotFoundError'' name)),
                joblib_dump = (\<lambda>m name. Inr ()),
                new_PCA = (\<lambda>p. []),
                new_SparsePCA = (\<lambda>p. []),
                fit = (\<lambda>m X. Inr X),
                transform = (\<lambda>m X. Inr X),
                inverse_transform = (\<lambda>m Y. Inr Y),
                components = (\<lambda>m. identity_rows (ncols_of m)),
                explained_variance_ratio = (\<lambda>m. Inr (replicate (ncols_of m) (Fin 1))),
                fastica_fit = (\<lambda>k X. if ncols_of X = 0
                                      then Inl (Exn ''ValueError'' ''Found array with 0 feature(s)'')
                                      else Inr (identity_rows (ncols_of X)))\<rparr>"

definition demo_args :: args where
  "demo_args = (default_args [''data''] ''out'')\<lparr>datamaskname := Some ''mask''\<rparr>"

text \<open>
  What lines 49 to 163 leave behind in that setting: the stacked data, and voxel 0 with
  its two values 1 and 3 demeaned (the method is \<^verbatim>\<open>"None"\<close>, so the factors are 1).
\<close>

definition demo_stacked :: stacked where
  "demo_stacked =
     \<lparr>xsize = 2, ysize = 1, numslices = 1, timepoints = 2,
      xdim = Fin 1, ydim = Fin 1, slicethickness = Fin 1, tr = Fin 2,
      totaltimepoints = 2,
      originaldatafiledims = [4, 2, 1, 1, 2, 1, 1, 1],
      rs_datafile = [[Fin 1, Fin 3], [Fin 5, Fin 5]],
      datafile_hdr = \<lparr>hdr_dim = [4, 2, 1, 1, 2, 1, 1, 1]\<rparr>,
      datafiledims = [4, 2, 1, 1, 2, 1, 1, 1],
      datafilesizes = [Fin 1, Fin 1, Fin 1, Fin 1, Fin 2, Fin 1, Fin 1, Fin 1]\<rparr>"

definition demo_prep :: "nat \<times> nat list \<times> stacked \<times> fl list \<times> fl list \<times> matrix" where
  "demo_prep = (2, [0], demo_stacked, [Fin 1, Fin 3], [Fin 1, Fin 1], [[Fin 0, Fin 0]])"

section \<open>Auxiliary facts\<close>

lemma fold_col_update_rows:
  "fold (\<lambda>i M. map (\<lambda>r. r[i := f i (r ! i)]) M) is M = map (fold (\<lambda>i r. r[i := f i (r ! i)]) is) M"
  by (induction "is" arbitrary: M) (simp_all add: comp_def)

lemma length_fold_row_update:
  "length (fold (\<lambda>i r. r[i := f i (r ! i)]) is r) = length r"
  by (induction "is" arbitrary: r) simp_all

lemma nth_fold_row_update:
  "j < length r \<Longrightarrow>
   fold (\<lambda>i r. r[i := f i (r ! i)]) [0..<k] r ! j = (if j < k then f j (r ! j) else r ! j)"
proof (induction k)
  case 0
  then show ?case by simp
next
  case (Suc k)
  then show ?case
    by (auto simp: length_fold_row_update nth_list_update less_Suc_eq)
qed

lemma demean_loop_rows:
  "demean_loop T mu M = map (fold (\<lambda>i r. r[i := fl_sub (r ! i) (mu ! i)]) [0..<T]) M"
  unfolding demean_loop_def sub_col_def
  by (rule fold_col_update_rows [where f = "\<lambda>i x. fl_sub x (mu ! i)"])

lemma divide_loop_rows:
  "divide_loop T fac M = map (fold (\<lambda>i r. r[i := fl_div (r ! i) (fac ! i)]) [0..<T]) M"
  unfolding divide_loop_def div_col_def
  by (rule fold_col_update_rows [where f = "\<lambda>i x. fl_div x (fac ! i)"])

lemma length_demean_loop [simp]: "length (demean_loop T mu M) = length M"
  by (simp add: demean_loop_rows)

lemma length_divide_loop [simp]: "length (divide_loop T fac M) = length M"
  by (simp add: divide_loop_rows)

lemma wellshaped_nth: "wellshaped T M \<Longrightarrow> v < length M \<Longrightarrow> length (M ! v) = T"
  by (simp add: wellshaped_def list_all_length)

lemma wellshaped_demean_loop: "wellshaped T M \<Longrightarrow> wellshaped T (demean_loop T mu M)"
  by (simp add: wellshaped_def list_all_length demean_loop_rows
      length_fold_row_update [where f = "\<lambda>i x. fl_sub x (mu ! i)"])

lemma demean_loop_nth:
  assumes "wellshaped T M" "v < length M" "i < T"
  shows "demean_loop T mu M ! v ! i = fl_sub (M ! v ! i) (mu ! i)"
  using assms wellshaped_nth [OF assms(1,2)]
  by (simp add: demean_loop_rows nth_fold_row_update [where f = "\<lambda>i x. fl_sub x (mu ! i)"])

lemma divide_loop_nth:
  assumes "wellshaped T M" "v < length M" "i < T"
  shows "divide_loop T fac M ! v ! i = fl_div (M ! v ! i) (fac ! i)"
  using assms wellshaped_nth [OF assms(1,2)]
  by (simp add: divide_loop_rows nth_fold_row_update [where f = "\<lambda>i x. fl_div x (fac ! i)"])

lemma length_divide_loop_row:
  "wellshaped T M \<Longrightarrow> v < length M \<Longrightarrow> length (divide_loop T fac M ! v) = T"
  by (simp add: divide_loop_rows wellshaped_nth
      length_fold_row_update [where f = "\<lambda>i x. fl_div x (fac ! i)"])

lemma wellshaped_demeaned: "wellshaped T M \<Longrightarrow> wellshaped T (demeaned T dm M)"
  by (simp add: demeaned_def wellshaped_demean_loop)

lemma length_demeaned [simp]: "length (demeaned T dm M) = length M"
  by (simp add: demeaned_def)

lemma is_finite_nan_to_num [simp]: "is_finite (nan_to_num x)"
  by (cases x) (simp_all add: is_finite_def nan_to_num_def)

lemma float_max_pos: "0 < float_max"
proof -
  have "(2::real) ^ 971 < 2 ^ 1024"
    by (rule power_strict_increasing) simp_all
  then show ?thesis by (simp add: float_max_def)
qed

lemma normalize_Inr_iff:
  "normalize sd md T nm dm pd = Inr (mu, fac, normed) \<longleftrightarrow>
     mu = mean_axis0 T pd \<and> normfac sd md T nm (mean_axis0 T pd) (demeaned T dm pd) = Inr fac
     \<and> normed = map (map nan_to_num) (divide_loop T fac (demeaned T dm pd))"
  by (auto simp: normalize_def Let_def split: sum.splits)

lemma normalize_entry:
  assumes "normalize sd md T nm dm pd = Inr (mu, fac, normed)"
    and "wellshaped T pd" and "v < length pd" and "i < T"
  shows "normed ! v ! i = nan_to_num (fl_div (demeaned T dm pd ! v ! i) (fac ! i))"
proof -
  have n: "normed = map (map nan_to_num) (divide_loop T fac (demeaned T dm pd))"
    using assms(1) by (simp add: normalize_Inr_iff)
  have ws: "wellshaped T (demeaned T dm pd)"
    using assms(2) by (rule wellshaped_demeaned)
  have len: "length (divide_loop T fac (demeaned T dm pd) ! v) = T"
    using ws assms(3) by (simp add: length_divide_loop_row)
  show ?thesis
    using assms(3,4) len ws by (simp add: n divide_loop_nth)
qed

lemma length_mean_axis0 [simp]: "length (mean_axis0 T M) = T"
  by (simp add: mean_axis0_def)

lemma nth_mean_axis0: "i < T \<Longrightarrow> mean_axis0 T M ! i = np_mean (col i M)"
  by (simp add: mean_axis0_def)

lemma normfac_illegal:
  "nm \<notin> {''None'', ''percent'', ''stddev'', ''z'', ''p2p'', ''mad''} \<Longrightarrow>
   normfac sd md T nm mu M = Inl (SystemExit ''illegal normalization type'')"
  by (simp add: normfac_def)

lemma normalize_illegal:
  "nm \<notin> {''None'', ''percent'', ''stddev'', ''z'', ''p2p'', ''mad''} \<Longrightarrow>
   normalize sd md T nm dm pd = Inl (SystemExit ''illegal normalization type'')"
  by (simp add: normalize_def Let_def normfac_illegal)

lemma ones_like:
  "fl_add (fl_mul m (Fin 0)) (Fin 1) = (if is_finite m then Fin 1 else NaN)"
  by (cases m) (simp_all add: fl_add_def fl_mul_def is_finite_def inf_of_sign_def)

lemma normfac_None:
  "normfac sd md T ''None'' mu M = Inr fac \<Longrightarrow> i < length mu \<Longrightarrow>
   fac ! i = (if is_finite (mu ! i) then Fin 1 else NaN)"
  by (auto simp: normfac_def ones_like)

lemma normfac_percent: "normfac sd md T ''percent'' mu M = Inr fac \<Longrightarrow> fac = mu"
  by (simp add: normfac_def)

lemma normfac_stddev:
  "normfac sd md T ''stddev'' mu M = Inr fac \<Longrightarrow> i < T \<Longrightarrow> fac ! i = sd (col i M)"
  by (auto simp: normfac_def)

lemma normfac_z:
  "normfac sd md T ''z'' mu M = Inr fac \<Longrightarrow> i < T \<Longrightarrow> fac ! i = np_var (col i M)"
  by (auto simp: normfac_def var_axis0_def)

lemma normfac_p2p:
  "normfac sd md T ''p2p'' mu M = Inr fac \<Longrightarrow> i < T \<Longrightarrow>
   M \<noteq> [] \<and> fac ! i = fl_sub (np_amax (col i M)) (np_amin (col i M))"
  by (auto simp: normfac_def max_axis0_def min_axis0_def split: if_splits)

lemma normfac_mad:
  "normfac sd md T ''mad'' mu M = Inr fac \<Longrightarrow> i < T \<Longrightarrow> fac ! i = md (col i M)"
  by (auto simp: normfac_def)

lemma normfac_length:
  "normfac sd md T nm mu M = Inr fac \<Longrightarrow> length mu = T \<Longrightarrow> length fac = T"
  by (auto simp: normfac_def var_axis0_def max_axis0_def min_axis0_def split: if_splits)

lemma normalize_factors:
  assumes "normalize sd md T nm dm pd = Inr (mu, fac, normed)" and "i < T"
  shows "mu = mean_axis0 T pd \<and> length fac = T
       \<and> (nm = ''None'' \<longrightarrow> fac ! i = (if is_finite (np_mean (col i pd)) then Fin 1 else NaN))
       \<and> (nm = ''percent'' \<longrightarrow> fac ! i = np_mean (col i pd))
       \<and> (nm = ''stddev'' \<longrightarrow> fac ! i = sd (col i (demeaned T dm pd)))
       \<and> (nm = ''z'' \<longrightarrow> fac ! i = np_var (col i (demeaned T dm pd)))
       \<and> (nm = ''p2p'' \<longrightarrow> fac ! i = fl_sub (np_amax (col i (demeaned T dm pd)))
                                            (np_amin (col i (demeaned T dm pd))))
       \<and> (nm = ''mad'' \<longrightarrow> fac ! i = md (col i (demeaned T dm pd)))"
proof -
  from assms(1) have mu: "mu = mean_axis0 T pd"
    and nf: "normfac sd md T nm (mean_axis0 T pd) (demeaned T dm pd) = Inr fac"
    by (simp_all add: normalize_Inr_iff)
  have len: "length fac = T"
    using nf by (rule normfac_length) simp
  have a: "nm = ''None'' \<longrightarrow> fac ! i = (if is_finite (np_mean (col i pd)) then Fin 1 else NaN)"
  proof
    assume "nm = ''None''"
    with nf have "normfac sd md T ''None'' (mean_axis0 T pd) (demeaned T dm pd) = Inr fac"
      by simp
    from normfac_None [OF this, of i] assms(2) show
      "fac ! i = (if is_finite (np_mean (col i pd)) then Fin 1 else NaN)"
      by (simp add: nth_mean_axis0)
  qed
  have b: "nm = ''percent'' \<longrightarrow> fac ! i = np_mean (col i pd)"
    using nf assms(2) normfac_percent [of sd md T "mean_axis0 T pd" "demeaned T dm pd" fac]
    by (auto simp: nth_mean_axis0)
  have c: "nm = ''stddev'' \<longrightarrow> fac ! i = sd (col i (demeaned T dm pd))"
    using nf assms(2) by (auto dest: normfac_stddev)
  have d: "nm = ''z'' \<longrightarrow> fac ! i = np_var (col i (demeaned T dm pd))"
    using nf assms(2) by (auto dest: normfac_z)
  have e: "nm = ''p2p'' \<longrightarrow> fac ! i = fl_sub (np_amax (col i (demeaned T dm pd)))
                                            (np_amin (col i (demeaned T dm pd)))"
    using nf assms(2) by (auto dest: normfac_p2p)
  have f: "nm = ''mad'' \<longrightarrow> fac ! i = md (col i (demeaned T dm pd))"
    using nf assms(2) by (auto dest: normfac_mad)
  show ?thesis using mu len a b c d e f by blast
qed

lemma scatter_fold_length:
  "length (fold (\<lambda>(p, r) out. out[p := r]) ps out) = length out"
  by (induction ps arbitrary: out) (simp_all add: split_def)

lemma scatter_fold_untouched:
  "s \<notin> fst ` set ps \<Longrightarrow> fold (\<lambda>(p, r) out. out[p := r]) ps out ! s = out ! s"
  by (induction ps arbitrary: out) (auto simp: split_def)

lemma scatter_fold_wellshaped:
  "wellshaped k out \<Longrightarrow> wellshaped k (map snd ps) \<Longrightarrow>
   wellshaped k (fold (\<lambda>(p, r) out. out[p := r]) ps out)"
proof (induction ps arbitrary: out)
  case Nil
  then show ?case by simp
next
  case (Cons a ps)
  obtain p r where a: "a = (p, r)" by (cases a)
  have "wellshaped k (out[p := r])"
    using Cons.prems unfolding wellshaped_def list_all_iff a
    by (auto dest: set_update_subset_insert [THEN subsetD])
  moreover have "wellshaped k (map snd ps)"
    using Cons.prems(2) by (simp add: wellshaped_def)
  ultimately show ?case
    using Cons.IH by (simp add: a)
qed

lemma length_scatter [simp]: "length (scatter n k proclocs vals) = n"
  by (simp add: scatter_def scatter_fold_length)

lemma scatter_unselected:
  "s < n \<Longrightarrow> s \<notin> set proclocs \<Longrightarrow> scatter n k proclocs vals ! s = replicate k (Fin 0)"
proof -
  assume s: "s < n" and out: "s \<notin> set proclocs"
  have "fst ` set (zip proclocs vals) \<subseteq> set proclocs"
    by (auto dest: set_zip_leftD)
  with out have "s \<notin> fst ` set (zip proclocs vals)" by blast
  then show ?thesis
    using s by (simp add: scatter_def scatter_fold_untouched)
qed

lemma wellshaped_scatter:
  assumes "wellshaped k vals"
  shows "wellshaped k (scatter n k proclocs vals)"
proof -
  have "set (map snd (zip proclocs vals)) \<subseteq> set vals"
    by (auto dest: set_zip_rightD)
  with assms have "wellshaped k (map snd (zip proclocs vals))"
    unfolding wellshaped_def list_all_iff by blast
  moreover have "wellshaped k (replicate n (replicate k (Fin 0)))"
    by (simp add: wellshaped_def list_all_iff)
  ultimately show ?thesis
    unfolding scatter_def by (rule scatter_fold_wellshaped [rotated])
qed

lemma concat_nth_wellshaped:
  "wellshaped k M \<Longrightarrow> s < length M \<Longrightarrow> f < k \<Longrightarrow> concat M ! (s * k + f) = M ! s ! f"
proof (induction M arbitrary: s)
  case Nil
  then show ?case by simp
next
  case (Cons r M)
  have lr: "length r = k" and ws: "wellshaped k M"
    using Cons.prems(1) by (simp_all add: wellshaped_def)
  show ?case
  proof (cases s)
    case 0
    with lr Cons.prems(3) show ?thesis by (simp add: nth_append)
  next
    case (Suc s')
    with Cons.prems(2) have "s' < length M" by simp
    from Cons.IH [OF ws this Cons.prems(3)] lr Suc show ?thesis
      by (simp add: nth_append)
  qed
qed

lemma flat_index_bound:
  fixes x y z :: nat
  assumes "ix < x" "iy < y" "iz < z"
  shows "(ix * y + iy) * z + iz < x * y * z"
proof -
  have "ix * y + iy < Suc ix * y" using assms(2) by simp
  also have "\<dots> \<le> x * y" using assms(1) by (intro mult_le_mono1) simp
  finally have a: "Suc (ix * y + iy) \<le> x * y" by simp
  have "(ix * y + iy) * z + iz < Suc (ix * y + iy) * z" using assms(3) by simp
  also have "\<dots> \<le> x * y * z" using a by (rule mult_le_mono1)
  finally show ?thesis .
qed

lemma wellshaped_transpose_m: "wellshaped (length M) (transpose_m m M)"
  by (simp add: wellshaped_def list_all_iff transpose_m_def col_def)

lemma io_bind_Inr: "m = (t, Inr x) \<Longrightarrow> io_bind m f = (t @ fst (f x), snd (f x))"
  by (simp add: io_bind_def)

lemma io_bind_Inl: "m = (t, Inl e) \<Longrightarrow> io_bind m f = (t, Inl e)"
  by (simp add: io_bind_def)

lemma io_bind_no_result:
  "(\<And>x. snd (f x) \<noteq> Inr r) \<Longrightarrow> snd (io_bind m f) \<noteq> Inr r"
  by (cases "snd m") (simp_all add: io_bind_def)

lemma reads_io_bind:
  "list_all is_read (fst m) \<Longrightarrow> (\<And>x. list_all is_read (fst (f x))) \<Longrightarrow>
   list_all is_read (fst (io_bind m f))"
  by (cases "snd m") (simp_all add: io_bind_def)

lemma reads_simple [simp]:
  "list_all is_read (fst (io_ret x))"
  "list_all is_read (fst (io_raise e))"
  "list_all is_read (fst (io_lift r))"
  "list_all is_read (fst (io_call (ReadNifti p) c))"
  by (simp_all add: io_ret_def io_raise_def io_lift_def io_call_def is_read_def)

lemma reads_read_mask: "list_all is_read (fst (read_mask env a))"
  unfolding read_mask_def
  by (intro reads_io_bind reads_simple) (auto simp: split_def intro!: reads_io_bind)

lemma reads_stack_file: "list_all is_read (fst (stack_file env a n nf idx file st))"
  unfolding stack_file_def
  by (intro reads_io_bind reads_simple)
     (auto simp: split_def split: option.splits intro!: reads_io_bind)

lemma reads_stack_loop: "list_all is_read (fst (stack_loop env a n nf idx files st))"
  by (induction files arbitrary: idx st) (auto intro!: reads_io_bind reads_stack_file)

lemma reads_select_voxels: "list_all is_read (fst (select_voxels env a dims pl st))"
  unfolding select_voxels_def
  by (auto simp: split_def split: option.splits intro!: reads_io_bind)

lemma reads_load_data: "list_all is_read (fst (load_data env a))"
  unfolding load_data_def
  by (auto simp: split_def intro!: reads_io_bind reads_read_mask reads_stack_loop
      reads_select_voxels)

lemma reads_prelude: "list_all is_read (fst (prelude env a))"
  unfolding prelude_def
  by (auto simp: split_def intro!: reads_io_bind reads_load_data)

lemma np_where_set: "set (np_where bs) = {i. i < length bs \<and> bs ! i}"
  by (auto simp: np_where_def)

lemma np_where_sorted: "sorted (np_where bs) \<and> distinct (np_where bs)"
  by (simp add: np_where_def sorted_wrt_filter)

lemma read_mask_3d:
  assumes "readfromnifti env (datamaskname a) = Inr m"
    and "parseniftidims (thedims m) = Inr (x, y, z, 1)"
    and "length (elems (nim_data m)) = x * y * z"
  shows "read_mask env a =
           ([ReadNifti (datamaskname a)],
            Inr (thedims m, x * y * z,
                 np_where (map (\<lambda>v. fl_gt v (maskthresh a)) (elems (nim_data m)))))"
  using assms
  by (simp add: read_mask_def io_bind_def io_call_def io_lift_def io_ret_def reshape1_def)

lemma read_mask_not_3d:
  assumes "readfromnifti env (datamaskname a) = Inr m"
    and "parseniftidims (thedims m) = Inr (x, y, z, t)"
    and "t \<noteq> 1"
  shows "read_mask env a =
           ([ReadNifti (datamaskname a)], Inl (SystemExit ''mask must have only 3 dimensions''))"
  using assms
  by (simp add: read_mask_def io_bind_def io_call_def io_lift_def io_raise_def)

lemma workflow_mask_failure:
  "read_mask env a = (t, Inl e) \<Longrightarrow> niftidecomp_workflow env a = (t, Inl e)"
  by (simp add: niftidecomp_workflow_def prelude_def load_data_def io_bind_Inl)

lemma select_voxels_keeps_mask:
  "datamaskname a = Some name \<Longrightarrow> select_voxels env a dims pl st = (t', Inr (pl', g)) \<Longrightarrow> pl' = pl"
  by (auto simp: select_voxels_def io_raise_def io_ret_def split: option.splits if_splits)

lemma get_model_load_failure:
  assumes "trainedmodelroot a = Some r" and "joblib_load env (r @ ''_pca.joblib'') = Inl ex"
  shows "get_model env a =
           ([JoblibLoad (r @ ''_pca.joblib'')],
            Inl (SystemExit (load_message (exn_type ex) (r @ ''_pca.joblib'') (exn_args ex))))"
  using assms by (simp add: get_model_def Let_def)

lemma workflow_after_prelude:
  "prelude env a = (t, Inr prep) \<Longrightarrow>
   niftidecomp_workflow env a =
     (t @ fst (if decomptype a = ''ica'' then ica_path env a prep else pca_path env a prep),
      snd (if decomptype a = ''ica'' then ica_path env a prep else pca_path env a prep))"
  by (simp add: niftidecomp_workflow_def io_bind_def)

lemma pca_path_model_failure:
  "get_model env a = (t, Inl e) \<Longrightarrow> pca_path env a prep = (t, Inl e)"
  by (cases prep) (simp add: pca_path_def io_bind_Inl)

lemma ica_path_no_result: "snd (ica_path env a prep) \<noteq> Inr r"
  by (cases prep) (simp add: ica_path_def io_bind_no_result io_raise_def)

lemma io_bind_no_result_dep:
  "(\<And>x. snd m = Inr x \<Longrightarrow> snd (f x) \<noteq> Inr r) \<Longrightarrow> snd (io_bind m f) \<noteq> Inr r"
  by (cases "snd m") (simp_all add: io_bind_def)

lemma fl_less_asym: "fl_less x (Fin 0) \<Longrightarrow> \<not> fl_less (Fin 0) x"
  by (cases x) (simp_all add: fl_less_def)

lemma choose_ncomp_negative:
  "num_of p = Some c \<Longrightarrow> fl_less c (Fin 0) \<Longrightarrow> choose_ncomp p = Inr (PyStr ''mle'')"
  by (simp add: choose_ncomp_def float_lt_def lt_float_def fl_less_asym)

lemma retain_string:
  "retain (PyStr s) comps = Inl (TypeError ''< not supported between these instances'')"
  by (simp add: retain_def lt_float_def num_of_def)

lemma get_model_fresh:
  assumes "trainedmodelroot a = None" and "choose_ncomp (pcacomponents a) = Inr p"
  shows "get_model env a =
           ([Construct (if decomptype a = ''pca'' then ''PCA'' else ''SparsePCA'') p,
             JoblibDump (outputroot a @ ''_pca.joblib'')],
            case joblib_dump env
                   (if decomptype a = ''pca'' then new_PCA env p else new_SparsePCA env p)
                   (outputroot a @ ''_pca.joblib'') of
              Inl ex \<Rightarrow> Inl (Raised ex)
            | Inr u \<Rightarrow>
                Inr (if decomptype a = ''pca'' then new_PCA env p else new_SparsePCA env p, p))"
  using assms
  by (simp add: get_model_def io_bind_def io_lift_def io_emit_def io_ret_def io_call_def
      split: sum.splits)

lemma pca_path_string_no_result:
  assumes "snd (get_model env a) = Inr (M, PyStr s)"
  shows "snd (pca_path env a prep) \<noteq> Inr r"
proof -
  obtain n pl g mu fac pd where prep: "prep = (n, pl, g, mu, fac, pd)"
    by (cases prep) auto
  obtain t where gm: "get_model env a = (t, Inr (M, PyStr s))"
    using assms by (cases "get_model env a") simp
  show ?thesis
    unfolding pca_path_def prep
    apply (simp add: io_bind_Inr [OF gm])
    apply (rule io_bind_no_result)
    apply (rule io_bind_no_result)
    apply (rule io_bind_no_result)
    apply (simp add: io_bind_def io_lift_def retain_string)
    done
qed

lemma pca_path_string_run:
  assumes "get_model env a = (t, Inr (M, PyStr s))"
    and "fit env M (transpose_m (totaltimepoints g) pd) = Inr M1"
    and "transform env M1 (transpose_m (totaltimepoints g) pd) = Inr Y"
    and "inverse_transform env M1 Y = Inr Z"
  shows "pca_path env a (n, pl, g, mu, fac, pd) =
           (t @ [Fit, Transform, InverseTransform],
            Inl (TypeError ''< not supported between these instances''))"
  using assms
  by (simp add: pca_path_def io_bind_def io_call_def io_lift_def retain_string)

lemma workflow_illegal_normmethod:
  assumes "load_data env a = (t, Inr (n, pl, g, pd))"
    and "normmethod a \<notin> {''None'', ''percent'', ''stddev'', ''z'', ''p2p'', ''mad''}"
  shows "niftidecomp_workflow env a = (t, Inl (SystemExit ''illegal normalization type''))"
  using assms(1) normalize_illegal [OF assms(2)]
  by (simp add: niftidecomp_workflow_def prelude_def io_bind_def io_lift_def)

lemma pca_path_unbound_thevar:
  assumes "0 < totaltimepoints g"
  shows "snd (pca_path env a (n, pl, g, mu, fac, pd)) \<noteq> Inr r"
  unfolding pca_path_def prod.case
  apply (rule io_bind_no_result)
  apply (simp only: split_def)
  apply (rule io_bind_no_result)
  apply (rule io_bind_no_result)
  apply (rule io_bind_no_result)
  apply (rule io_bind_no_result)
  apply (rule io_bind_no_result)
  apply (rule io_bind_no_result)
  apply (simp add: assms io_bind_def io_raise_def)
  done

lemma workflow_returns_only_without_timepoints:
  assumes "niftidecomp_workflow env a = (t, Inr res)"
  shows "\<exists>t0 n pl g mu fac pd.
           prelude env a = (t0, Inr (n, pl, g, mu, fac, pd))
         \<and> totaltimepoints g = 0 \<and> decomptype a \<noteq> ''ica''"
proof (cases "snd (prelude env a)")
  case (Inl e)
  then have "snd (niftidecomp_workflow env a) = Inl e"
    by (simp add: niftidecomp_workflow_def io_bind_def)
  with assms show ?thesis by simp
next
  case (Inr prep)
  obtain n pl g mu fac pd where prep: "prep = (n, pl, g, mu, fac, pd)"
    by (cases prep) auto
  obtain t0 where p: "prelude env a = (t0, Inr (n, pl, g, mu, fac, pd))"
    using Inr prep by (cases "prelude env a") simp
  have ni: "decomptype a \<noteq> ''ica''"
  proof
    assume "decomptype a = ''ica''"
    with p assms ica_path_no_result [of env a "(n, pl, g, mu, fac, pd)" res]
    show False by (simp add: workflow_after_prelude)
  qed
  have "totaltimepoints g = 0"
  proof (rule ccontr)
    assume "totaltimepoints g \<noteq> 0"
    then have "0 < totaltimepoints g" by simp
    from pca_path_unbound_thevar [OF this, of env a n pl mu fac pd res] p ni assms
    show False by (simp add: workflow_after_prelude)
  qed
  with p ni show ?thesis by blast
qed

lemma workflow_without_mask_name:
  assumes "datamaskname a = None" and "readfromnifti env None = Inl ex"
  shows "niftidecomp_workflow env a = ([ReadNifti None], Inl (Raised ex))"
proof -
  have "read_mask env a = ([ReadNifti None], Inl (Raised ex))"
    using assms by (simp add: read_mask_def io_bind_def io_call_def)
  then show ?thesis by (rule workflow_mask_failure)
qed

lemma map_zip_same:
  "map (\<lambda>(u, v). h u v) (zip (map f xs) (map k xs)) = map (\<lambda>x. h (f x) (k x)) xs"
  by (induction xs) simp_all

lemma select_voxels_fallback:
  assumes "datamaskname a = None" and "0 < totaltimepoints g"
  shows "select_voxels env a dims pl (Some g) =
           ([], Inr (np_where (map (\<lambda>row. fl_gt (fl_sub (np_amax row) (np_amin row)) (Fin 0))
                                   (rs_datafile g)), g))"
proof -
  have "map (\<lambda>(mx, mn). fl_gt (fl_sub mx mn) (Fin 0))
          (zip (map np_amax (rs_datafile g)) (map np_amin (rs_datafile g)))
        = map (\<lambda>row. fl_gt (fl_sub (np_amax row) (np_amin row)) (Fin 0)) (rs_datafile g)"
    by (rule map_zip_same)
  then show ?thesis
    using assms
    by (simp add: select_voxels_def max_axis1_def min_axis1_def io_bind_def io_lift_def io_ret_def)
qed

lemma demo_prelude:
  "prelude demo_env demo_args = ([ReadNifti (Some ''mask''), ReadNifti (Some ''data'')], Inr demo_prep)"
  by code_simp

lemma demeaned_nonempty: "demeaned T dm pd = [] \<longleftrightarrow> pd = []"
  using length_demeaned [of T dm pd] by (metis length_0_conv)

lemma normalize_entry_after_division:
  assumes "normalize sd md T nm dm pd = Inr (mu, fac, normed)"
    and "wellshaped T pd" and "v < length pd" and "i < T"
  shows "normed ! v ! i = nan_to_num (divide_loop T fac (demeaned T dm pd) ! v ! i)"
proof -
  have n: "normed = map (map nan_to_num) (divide_loop T fac (demeaned T dm pd))"
    using assms(1) by (simp add: normalize_Inr_iff)
  have ws: "wellshaped T (demeaned T dm pd)"
    using assms(2) by (rule wellshaped_demeaned)
  have len: "length (divide_loop T fac (demeaned T dm pd) ! v) = T"
    using ws assms(3) by (simp add: length_divide_loop_row)
  show ?thesis
    using assms(3,4) len by (simp add: n)
qed

lemma nan_to_num_cases:
  "(q = NaN \<longrightarrow> nan_to_num q = Fin 0)
   \<and> (q = PInf \<longrightarrow> nan_to_num q = Fin float_max)
   \<and> (q = NInf \<longrightarrow> nan_to_num q = Fin (- float_max))
   \<and> (is_finite q \<longrightarrow> nan_to_num q = q)"
  by (cases q) (simp_all add: nan_to_num_def is_finite_def)

lemma div_by_zero_either_sign:
  "(x = Fin 0 \<or> x = NaN \<longrightarrow> nan_to_num (fl_div x (Fin 0)) = Fin 0)
   \<and> (x \<noteq> Fin 0 \<and> x \<noteq> NaN \<longrightarrow>
        nan_to_num (fl_div x (Fin 0)) = Fin float_max
        \<or> nan_to_num (fl_div x (Fin 0)) = Fin (- float_max))"
  by (cases x) (auto simp: fl_div_def nan_to_num_def inf_of_sign_def)

lemma ica_path_fit_raises:
  assumes "fastica_fit env (icacomponents a) (transpose_m (totaltimepoints g) pd) = Inl ex"
  shows "ica_path env a (n, pl, g, mu, fac, pd)
           = ([FastICAFit (icacomponents a)], Inl (Raised ex))"
  using assms by (simp add: ica_path_def io_bind_def io_call_def)

section \<open>Claim C1: denormalisation of the reconstruction\<close>

text \<open>
  Claim C1 says that on the PCA/SparsePCA path, after the inverse transform, every time
  point \<open>i\<close> of the reconstruction becomes
  \<^verbatim>\<open>thenormfac[i] * inverse_transform[:, i] + themean[i]\<close>. Line 241 multiplies by
  \<^verbatim>\<open>thevar[i]\<close> instead, a name bound nowhere in the module, so the first pass of the loop
  raises NameError and nothing is rescaled. In the concrete setting (one masked voxel,
  two time points, defaults otherwise) the run reads the mask and the data, constructs,
  writes and fits the model, transforms and inverse-transforms, and ends in that error.
  By \<open>workflow_returns_only_without_timepoints\<close> no run with at least one time point
  returns a result.
\<close>

theorem C1_denormalisation_raises_NameError:
  "niftidecomp_workflow demo_env demo_args =
     ([ReadNifti (Some ''mask''), ReadNifti (Some ''data''),
       Construct ''PCA'' (PyFloat (Fin (1 / 2))), JoblibDump ''out_pca.joblib'',
       Fit, Transform, InverseTransform],
      Inl (NameError ''thevar''))"
  by code_simp

section \<open>Claim C2: the mask must be three-dimensional\<close>

text \<open>
  Claim C2: when the mask volume has a number of time points other than 1, the run ends
  with the diagnostic \<^verbatim>\<open>mask must have only 3 dimensions\<close> and an exit, and the only call
  made to the outside is the read of the mask, so no data file has been read; when it
  has exactly one time point, \<^verbatim>\<open>proclocs\<close> is the set of flattened spatial indices whose
  mask value is strictly greater than the threshold (in increasing order, without
  repetition), and the selection keeps it whenever a mask name was given. The default
  threshold is 0.25.
\<close>

theorem C2_mask_dimensionality:
  assumes "readfromnifti env (datamaskname a) = Inr m"
    and "parseniftidims (thedims m) = Inr (x, y, z, t)"
  shows "(t \<noteq> 1 \<longrightarrow>
            niftidecomp_workflow env a =
              ([ReadNifti (datamaskname a)], Inl (SystemExit ''mask must have only 3 dimensions'')))
       \<and> (t = 1 \<and> length (elems (nim_data m)) = x * y * z \<longrightarrow>
            (\<exists>pl. read_mask env a = ([ReadNifti (datamaskname a)], Inr (thedims m, x * y * z, pl))
                \<and> set pl = {s. s < x * y * z \<and> fl_gt (elems (nim_data m) ! s) (maskthresh a)}
                \<and> sorted pl \<and> distinct pl
                \<and> (\<forall>name st t' pl' g.
                      datamaskname a = Some name
                      \<and> select_voxels env a (thedims m) pl st = (t', Inr (pl', g))
                      \<longrightarrow> pl' = pl)))
       \<and> maskthresh (default_args files out) = Fin (1 / 4)"
proof (intro conjI impI)
  assume "t \<noteq> 1"
  with assms show "niftidecomp_workflow env a =
      ([ReadNifti (datamaskname a)], Inl (SystemExit ''mask must have only 3 dimensions''))"
    by (intro workflow_mask_failure read_mask_not_3d)
next
  assume h: "t = 1 \<and> length (elems (nim_data m)) = x * y * z"
  let ?pl = "np_where (map (\<lambda>v. fl_gt v (maskthresh a)) (elems (nim_data m)))"
  have rm: "read_mask env a = ([ReadNifti (datamaskname a)], Inr (thedims m, x * y * z, ?pl))"
    using assms h by (intro read_mask_3d) simp_all
  have st: "set ?pl = {s. s < x * y * z \<and> fl_gt (elems (nim_data m) ! s) (maskthresh a)}"
    using h by (auto simp: np_where_set)
  have keep: "\<forall>name st t' pl' g.
                      datamaskname a = Some name
                      \<and> select_voxels env a (thedims m) ?pl st = (t', Inr (pl', g))
                      \<longrightarrow> pl' = ?pl"
    by (blast dest: select_voxels_keeps_mask)
  show "\<exists>pl. read_mask env a = ([ReadNifti (datamaskname a)], Inr (thedims m, x * y * z, pl))
                \<and> set pl = {s. s < x * y * z \<and> fl_gt (elems (nim_data m) ! s) (maskthresh a)}
                \<and> sorted pl \<and> distinct pl
                \<and> (\<forall>name st t' pl' g.
                      datamaskname a = Some name
                      \<and> select_voxels env a (thedims m) pl st = (t', Inr (pl', g))
                      \<longrightarrow> pl' = pl)"
    using rm st keep np_where_sorted by (intro exI [of _ ?pl]) blast
next
  show "maskthresh (default_args files out) = Fin (1 / 4)"
    by (simp add: default_args_def)
qed

text \<open>
  The concrete setting satisfies the hypotheses of C2 twice: the mask with two time
  points stops the run, and the three-dimensional mask with values 1 and 0 selects
  voxel 0 under the threshold 0.25.
\<close>

theorem C2_mask_dimensionality_witness:
  "readfromnifti demo_env (datamaskname (demo_args\<lparr>datamaskname := Some ''mask4d''\<rparr>))
     = Inr demo_mask4d
   \<and> parseniftidims (thedims demo_mask4d) = Inr (2, 1, 1, 2)
   \<and> niftidecomp_workflow demo_env (demo_args\<lparr>datamaskname := Some ''mask4d''\<rparr>)
       = ([ReadNifti (Some ''mask4d'')], Inl (SystemExit ''mask must have only 3 dimensions''))
   \<and> readfromnifti demo_env (datamaskname demo_args) = Inr demo_mask
   \<and> parseniftidims (thedims demo_mask) = Inr (2, 1, 1, 1)
   \<and> (\<exists>pl. read_mask demo_env demo_args
               = ([ReadNifti (Some ''mask'')], Inr ([3, 2, 1, 1, 1, 1, 1, 1], 2, pl))
           \<and> set pl = {0})"
proof -
  have h1: "readfromnifti demo_env (datamaskname (demo_args\<lparr>datamaskname := Some ''mask4d''\<rparr>))
              = Inr demo_mask4d"
    by code_simp
  have h2: "parseniftidims (thedims demo_mask4d) = Inr (2, 1, 1, 2)"
    by code_simp
  have h3: "readfromnifti demo_env (datamaskname demo_args) = Inr demo_mask"
    by code_simp
  have h4: "parseniftidims (thedims demo_mask) = Inr (2, 1, 1, 1)"
    by code_simp
  have c1: "niftidecomp_workflow demo_env (demo_args\<lparr>datamaskname := Some ''mask4d''\<rparr>)
       = ([ReadNifti (Some ''mask4d'')], Inl (SystemExit ''mask must have only 3 dimensions''))"
    using C2_mask_dimensionality [OF h1 h2] by simp
  have sel: "{s. s < 2 * 1 * 1 \<and> fl_gt (elems (nim_data demo_mask) ! s) (maskthresh demo_args)}
               = {0}"
    by (auto simp: demo_mask_def demo_args_def default_args_def fl_gt_def fl_less_def
        less_2_cases_iff)
  have nm: "datamaskname demo_args = Some ''mask''"
    by (simp add: demo_args_def)
  have dm: "thedims demo_mask = [3, 2, 1, 1, 1, 1, 1, 1]"
     and ln: "length (elems (nim_data demo_mask)) = 2 * 1 * 1"
    by (simp_all add: demo_mask_def)
  from C2_mask_dimensionality [OF h3 h4] ln
  obtain pl where "read_mask demo_env demo_args
               = ([ReadNifti (datamaskname demo_args)], Inr (thedims demo_mask, 2 * 1 * 1, pl))"
    and "set pl = {s. s < 2 * 1 * 1 \<and> fl_gt (elems (nim_data demo_mask) ! s) (maskthresh demo_args)}"
    by blast
  then have c2: "\<exists>pl. read_mask demo_env demo_args
               = ([ReadNifti (Some ''mask'')], Inr ([3, 2, 1, 1, 1, 1, 1, 1], 2, pl))
           \<and> set pl = {0}"
    unfolding sel nm dm by simp
  show ?thesis using h1 h2 h3 h4 c1 c2 by blast
qed

section \<open>Claim C3: running without a mask\<close>

text \<open>
  Claim C3 says that with no mask path (the default \<^verbatim>\<open>datamaskname=None\<close>) the run does
  not fail on the absent mask and selects the voxels of positive range. The selection
  exists (lines 122 to 127, \<open>select_voxels_fallback\<close>), but line 57 reads the mask
  before anything else, whatever \<^verbatim>\<open>datamaskname\<close> is. With the defaults of the signature
  and a reader that cannot open the path \<^verbatim>\<open>None\<close>, the run ends in the reader's
  exception after that single call; \<open>workflow_without_mask_name\<close> states it for every
  such reader.
\<close>

theorem C3_absent_mask_read_fails:
  "niftidecomp_workflow demo_env (default_args [''data''] ''out'') =
     ([ReadNifti None],
      Inl (Raised (Exn ''TypeError'' ''expected str, bytes or os.PathLike object, not NoneType'')))"
  by code_simp

section \<open>Claim C4: unselected voxels are zero\<close>

text \<open>
  Claim C4: the reassembly (the component maps of lines 227 to 231 and the
  reconstructed volume of lines 246 to 248) returns an array of shape
  \<open>(x, y, slices, k)\<close> in which the entry at every spatial position whose flattened
  index is not in \<^verbatim>\<open>proclocs\<close> is exactly 0, in every one of the \<open>k\<close> feature slices.
  The zero array has \<open>x * y * slices\<close> rows, and the rows scattered have \<open>k\<close> entries
  each, which \<open>wellshaped_transpose_m\<close> gives for both arrays the workflow scatters.
\<close>

theorem C4_unselected_voxels_zero:
  assumes "n = x * y * z"
    and "wellshaped k vals"
    and "ix < x" and "iy < y" and "iz < z" and "f < k"
    and "(ix * y + iy) * z + iz \<notin> set proclocs"
  shows "\<exists>out. reassemble x y z k n proclocs vals = Inr out
             \<and> shape out = [x, y, z, k]
             \<and> at4 out ix iy iz f = Fin 0"
proof -
  let ?s = "(ix * y + iy) * z + iz"
  define out where "out = \<lparr>shape = [x, y, z, k], elems = concat (scatter n k proclocs vals)\<rparr>"
  have ret: "reassemble x y z k n proclocs vals = Inr out"
    using assms(1) by (simp add: reassemble_def reshape4_def out_def)
  have s: "?s < n"
    unfolding assms(1) using assms(3,4,5) by (rule flat_index_bound)
  have "at4 out ix iy iz f = concat (scatter n k proclocs vals) ! (?s * k + f)"
    by (simp add: out_def at4_def)
  also have "\<dots> = scatter n k proclocs vals ! ?s ! f"
    using wellshaped_scatter [OF assms(2)] s assms(6) by (simp add: concat_nth_wellshaped)
  also have "\<dots> = Fin 0"
    using s assms(6,7) by (simp add: scatter_unselected)
  finally have "at4 out ix iy iz f = Fin 0" .
  with ret show ?thesis by (intro exI [of _ out]) (simp add: out_def)
qed

text \<open>
  An instance of C4: four spatial positions in a 2 x 1 x 2 grid, two features,
  positions 1 and 3 selected; position (1, 0, 0) has flattened index 2 and is zero.
\<close>

theorem C4_unselected_voxels_zero_witness:
  "(4::nat) = 2 * 1 * 2
   \<and> wellshaped 2 [[Fin 7, Fin 8], [Fin 9, Fin 10]]
   \<and> (1::nat) < 2 \<and> (0::nat) < 1 \<and> (0::nat) < 2 \<and> (1::nat) < 2
   \<and> (1 * 1 + 0) * 2 + 0 \<notin> set [1, 3 :: nat]
   \<and> reassemble 2 1 2 2 4 [1, 3] [[Fin 7, Fin 8], [Fin 9, Fin 10]]
       = Inr \<lparr>shape = [2, 1, 2, 2],
              elems = [Fin 0, Fin 0, Fin 7, Fin 8, Fin 0, Fin 0, Fin 9, Fin 10]\<rparr>
   \<and> at4 \<lparr>shape = [2, 1, 2, 2],
           elems = [Fin 0, Fin 0, Fin 7, Fin 8, Fin 0, Fin 0, Fin 9, Fin 10]\<rparr> 1 0 0 1 = Fin 0"
proof -
  have h1: "(4::nat) = 2 * 1 * 2" by simp
  have h2: "wellshaped 2 [[Fin 7, Fin 8], [Fin 9, Fin 10]]"
    by (simp add: wellshaped_def)
  have h7: "(1 * 1 + 0) * 2 + 0 \<notin> set [1, 3 :: nat]" by simp
  have e: "reassemble 2 1 2 2 4 [1, 3] [[Fin 7, Fin 8], [Fin 9, Fin 10]]
     = Inr \<lparr>shape = [2, 1, 2, 2],
            elems = [Fin 0, Fin 0, Fin 7, Fin 8, Fin 0, Fin 0, Fin 9, Fin 10]\<rparr>"
    by code_simp
  have "\<exists>out. reassemble 2 1 2 2 4 [1, 3] [[Fin 7, Fin 8], [Fin 9, Fin 10]] = Inr out
             \<and> shape out = [2, 1, 2, 2]
             \<and> at4 out 1 0 0 1 = Fin 0"
    by (rule C4_unselected_voxels_zero [OF h1 h2 _ _ _ _ h7]) simp_all
  with e have "at4 \<lparr>shape = [2, 1, 2, 2],
           elems = [Fin 0, Fin 0, Fin 7, Fin 8, Fin 0, Fin 0, Fin 9, Fin 10]\<rparr> 1 0 0 1 = Fin 0"
    by auto
  with h1 h2 h7 e show ?thesis by simp
qed

section \<open>Claim C5: non-finite values after the division\<close>

text \<open>
  Claim C5 as stated fails: with \<^verbatim>\<open>percent\<close> and demeaning, the column (1, -1) has mean
  +0.0, so its factor is 0, and 1/0 and -1/0 are the infinities, which \<^verbatim>\<open>np.nan_to_num\<close>
  replaces by the largest finite double and its negation, not by 0.
\<close>

theorem C5_zero_factor_counterexample:
  "normalize (np_std demo_env) (mad demo_env) 1 ''percent'' True [[Fin 1], [Fin (- 1)]]
     = Inr ([Fin 0], [Fin 0], [[Fin float_max], [Fin (- float_max)]])
   \<and> Fin float_max \<noteq> Fin 0"
proof -
  have "normalize (np_std demo_env) (mad demo_env) 1 ''percent'' True [[Fin 1], [Fin (- 1)]]
     = Inr ([Fin 0], [Fin 0], [[Fin float_max], [Fin (- float_max)]])"
    by code_simp
  moreover have "Fin float_max \<noteq> Fin 0"
    using float_max_pos by simp
  ultimately show ?thesis by simp
qed

text \<open>
  Claim C5, amended: after the division step every entry of \<^verbatim>\<open>procdata\<close> is replaced by
  its \<^verbatim>\<open>np.nan_to_num\<close>: NaN by 0, +infinity by the largest finite double, -infinity by
  the most negative one, and a finite value by itself, so \<^verbatim>\<open>procdata\<close> holds only
  finite values. For a time point whose factor is a zero, an entry becomes 0 when the
  value divided was a zero or NaN, and otherwise the largest finite double or the most
  negative one (which of the two depends on the signs of the value and of the zero).
\<close>

theorem C5_nonfinite_entries_replaced:
  assumes "normalize sd md T nm dm pd = Inr (mu, fac, normed)"
    and "wellshaped T pd" and "v < length pd" and "i < T"
  shows "normed ! v ! i = nan_to_num (divide_loop T fac (demeaned T dm pd) ! v ! i)
       \<and> (divide_loop T fac (demeaned T dm pd) ! v ! i = NaN \<longrightarrow> normed ! v ! i = Fin 0)
       \<and> (divide_loop T fac (demeaned T dm pd) ! v ! i = PInf \<longrightarrow>
            normed ! v ! i = Fin float_max)
       \<and> (divide_loop T fac (demeaned T dm pd) ! v ! i = NInf \<longrightarrow>
            normed ! v ! i = Fin (- float_max))
       \<and> (is_finite (divide_loop T fac (demeaned T dm pd) ! v ! i) \<longrightarrow>
            normed ! v ! i = divide_loop T fac (demeaned T dm pd) ! v ! i)
       \<and> 0 < float_max
       \<and> is_finite (normed ! v ! i)
       \<and> (fac ! i = Fin 0 \<longrightarrow>
            (demeaned T dm pd ! v ! i = Fin 0 \<or> demeaned T dm pd ! v ! i = NaN
               \<longrightarrow> normed ! v ! i = Fin 0)
          \<and> (demeaned T dm pd ! v ! i \<noteq> Fin 0 \<and> demeaned T dm pd ! v ! i \<noteq> NaN
               \<longrightarrow> normed ! v ! i = Fin float_max \<or> normed ! v ! i = Fin (- float_max)))"
proof -
  let ?q = "divide_loop T fac (demeaned T dm pd) ! v ! i"
  let ?x = "demeaned T dm pd ! v ! i"
  have e: "normed ! v ! i = nan_to_num ?q"
    using assms by (rule normalize_entry_after_division)
  have q: "?q = fl_div ?x (fac ! i)"
    using wellshaped_demeaned [OF assms(2)] assms(3,4) by (simp add: divide_loop_nth)
  have f: "is_finite (normed ! v ! i)" by (simp add: e)
  have c: "(?q = NaN \<longrightarrow> normed ! v ! i = Fin 0)
       \<and> (?q = PInf \<longrightarrow> normed ! v ! i = Fin float_max)
       \<and> (?q = NInf \<longrightarrow> normed ! v ! i = Fin (- float_max))
       \<and> (is_finite ?q \<longrightarrow> normed ! v ! i = ?q)"
    unfolding e by (rule nan_to_num_cases)
  have z: "fac ! i = Fin 0 \<longrightarrow>
            (?x = Fin 0 \<or> ?x = NaN \<longrightarrow> normed ! v ! i = Fin 0)
          \<and> (?x \<noteq> Fin 0 \<and> ?x \<noteq> NaN
               \<longrightarrow> normed ! v ! i = Fin float_max \<or> normed ! v ! i = Fin (- float_max))"
  proof
    assume "fac ! i = Fin 0"
    then have "normed ! v ! i = nan_to_num (fl_div ?x (Fin 0))"
      by (simp add: e q)
    with div_by_zero_either_sign [of ?x] show
      "(?x = Fin 0 \<or> ?x = NaN \<longrightarrow> normed ! v ! i = Fin 0)
          \<and> (?x \<noteq> Fin 0 \<and> ?x \<noteq> NaN
               \<longrightarrow> normed ! v ! i = Fin float_max \<or> normed ! v ! i = Fin (- float_max))"
      by simp
  qed
  from e c float_max_pos f z show ?thesis by (intro conjI) blast+
qed

text \<open>
  An instance of the amended C5: the column (3, -3, 0) under \<^verbatim>\<open>percent\<close> has factor 0
  and becomes (largest double, most negative double, 0); the entry looked at is the
  second.
\<close>

theorem C5_nonfinite_entries_replaced_witness:
  "normalize (np_std demo_env) (mad demo_env) 1 ''percent'' True [[Fin 3], [Fin (- 3)], [Fin 0]]
     = Inr ([Fin 0], [Fin 0], [[Fin float_max], [Fin (- float_max)], [Fin 0]])
   \<and> wellshaped 1 [[Fin 3], [Fin (- 3)], [Fin 0]]
   \<and> (1::nat) < length [[Fin 3], [Fin (- 3)], [Fin 0]] \<and> (0::nat) < 1
   \<and> [Fin 0 :: fl] ! 0 = Fin 0
   \<and> demeaned 1 True [[Fin 3], [Fin (- 3)], [Fin 0]] ! 1 ! 0 = Fin (- 3)
   \<and> is_finite ([[Fin float_max], [Fin (- float_max)], [Fin 0]] ! 1 ! 0)
   \<and> ([[Fin float_max], [Fin (- float_max)], [Fin 0]] ! 1 ! 0 = Fin float_max
      \<or> [[Fin float_max], [Fin (- float_max)], [Fin 0]] ! 1 ! 0 = Fin (- float_max))"
proof -
  have h1: "normalize (np_std demo_env) (mad demo_env) 1 ''percent'' True
              [[Fin 3], [Fin (- 3)], [Fin 0]]
     = Inr ([Fin 0], [Fin 0], [[Fin float_max], [Fin (- float_max)], [Fin 0]])"
    by code_simp
  have h2: "wellshaped 1 [[Fin 3], [Fin (- 3)], [Fin 0]]"
    by (simp add: wellshaped_def)
  have h3: "(1::nat) < length [[Fin 3], [Fin (- 3)], [Fin 0]]" by simp
  have h4: "(0::nat) < 1" by simp
  have z: "[Fin 0 :: fl] ! 0 = Fin 0" by simp
  have d: "demeaned 1 True [[Fin 3], [Fin (- 3)], [Fin 0]] ! 1 ! 0 = Fin (- 3)"
    by code_simp
  have nz: "demeaned 1 True [[Fin 3], [Fin (- 3)], [Fin 0]] ! 1 ! 0 \<noteq> Fin 0
          \<and> demeaned 1 True [[Fin 3], [Fin (- 3)], [Fin 0]] ! 1 ! 0 \<noteq> NaN"
    unfolding d by simp
  note th = C5_nonfinite_entries_replaced [OF h1 h2 h3 h4]
  from th have a: "is_finite ([[Fin float_max], [Fin (- float_max)], [Fin 0]] ! 1 ! 0)"
    by blast
  from th z nz
  have b: "[[Fin float_max], [Fin (- float_max)], [Fin 0]] ! 1 ! 0 = Fin float_max
      \<or> [[Fin float_max], [Fin (- float_max)], [Fin 0]] ! 1 ! 0 = Fin (- float_max)"
    by blast
  from h1 h2 h3 h4 z d a b show ?thesis by (intro conjI)
qed

section \<open>Claim C6: failure to load a trained model\<close>

text \<open>
  Claim C6: on the PCA/SparsePCA path with a trained-model root, when \<^verbatim>\<open>joblib.load\<close>
  of \<^verbatim>\<open>root + "_pca.joblib"\<close> raises, the run ends with an exit whose diagnostic holds
  the exception's type name, the model file's path and the exception's arguments; the
  load is the last call of the run and all calls before it are image reads, so no model
  is constructed, written or fitted.
\<close>

theorem C6_model_load_failure_is_fatal:
  assumes "prelude env a = (t, Inr prep)"
    and "decomptype a \<noteq> ''ica''"
    and "trainedmodelroot a = Some r"
    and "joblib_load env (r @ ''_pca.joblib'') = Inl ex"
  shows "niftidecomp_workflow env a =
           (t @ [JoblibLoad (r @ ''_pca.joblib'')],
            Inl (SystemExit
                   (''An exception of type '' @ exn_type ex @ '' occurred when trying to open ''
                      @ r @ ''_pca.joblib'' @ ''. Arguments:'' @ [CHR 0x0A] @ exn_args ex)))
       \<and> list_all is_read t"
proof -
  have "pca_path env a prep =
          ([JoblibLoad (r @ ''_pca.joblib'')],
           Inl (SystemExit (load_message (exn_type ex) (r @ ''_pca.joblib'') (exn_args ex))))"
    using assms(3,4) by (intro pca_path_model_failure get_model_load_failure)
  then have "niftidecomp_workflow env a =
           (t @ [JoblibLoad (r @ ''_pca.joblib'')],
            Inl (SystemExit (load_message (exn_type ex) (r @ ''_pca.joblib'') (exn_args ex))))"
    using assms(1,2) by (simp add: workflow_after_prelude)
  moreover have "list_all is_read t"
    using reads_prelude [of env a] assms(1) by simp
  ultimately show ?thesis by (simp add: load_message_def)
qed

text \<open>
  An instance of C6 in the concrete setting, where no model file exists.
\<close>

theorem C6_model_load_failure_witness:
  "prelude demo_env (demo_args\<lparr>trainedmodelroot := Some ''trained''\<rparr>)
     = ([ReadNifti (Some ''mask''), ReadNifti (Some ''data'')], Inr demo_prep)
   \<and> decomptype (demo_args\<lparr>trainedmodelroot := Some ''trained''\<rparr>) \<noteq> ''ica''
   \<and> trainedmodelroot (demo_args\<lparr>trainedmodelroot := Some ''trained''\<rparr>) = Some ''trained''
   \<and> joblib_load demo_env (''trained'' @ ''_pca.joblib'')
       = Inl (Exn ''FileNotFoundError'' ''trained_pca.joblib'')
   \<and> niftidecomp_workflow demo_env (demo_args\<lparr>trainedmodelroot := Some ''trained''\<rparr>)
       = ([ReadNifti (Some ''mask''), ReadNifti (Some ''data''), JoblibLoad ''trained_pca.joblib''],
          Inl (SystemExit
                 (''An exception of type FileNotFoundError occurred when trying to open ''
                    @ ''trained_pca.joblib. Arguments:'' @ [CHR 0x0A] @ ''trained_pca.joblib'')))"
proof -
  have h1: "prelude demo_env (demo_args\<lparr>trainedmodelroot := Some ''trained''\<rparr>)
     = ([ReadNifti (Some ''mask''), ReadNifti (Some ''data'')], Inr demo_prep)"
    by code_simp
  have h2: "decomptype (demo_args\<lparr>trainedmodelroot := Some ''trained''\<rparr>) \<noteq> ''ica''"
    by (simp add: demo_args_def default_args_def)
  have h3: "trainedmodelroot (demo_args\<lparr>trainedmodelroot := Some ''trained''\<rparr>) = Some ''trained''"
    by simp
  have h4: "joblib_load demo_env (''trained'' @ ''_pca.joblib'')
       = Inl (Exn ''FileNotFoundError'' ''trained_pca.joblib'')"
    by (simp add: demo_env_def)
  from C6_model_load_failure_is_fatal [OF h1 h2 h3 h4]
  have "niftidecomp_workflow demo_env (demo_args\<lparr>trainedmodelroot := Some ''trained''\<rparr>)
       = ([ReadNifti (Some ''mask''), ReadNifti (Some ''data''), JoblibLoad ''trained_pca.joblib''],
          Inl (SystemExit
                 (''An exception of type FileNotFoundError occurred when trying to open ''
                    @ ''trained_pca.joblib. Arguments:'' @ [CHR 0x0A] @ ''trained_pca.joblib'')))"
    by simp
  with h1 h2 h3 h4 show ?thesis by blast
qed

section \<open>Claim C7: the normalisation methods\<close>




section \<open>Claim C8: the factor of the method percent\<close>

text \<open>
  Claim C8: with \<^verbatim>\<open>normmethod = "percent"\<close> and demeaning enabled, the factor of each
  time point is the mean over voxels of \<^verbatim>\<open>procdata\<close> as it was before demeaning, and the
  value of each voxel at that time point, demeaned, is divided by this mean (and passed
  through \<^verbatim>\<open>np.nan_to_num\<close>).
\<close>

theorem C8_percent_factor_is_predemean_mean:
  assumes "wellshaped T pd"
  shows "\<exists>normed.
           normalize sd md T ''percent'' True pd = Inr (mean_axis0 T pd, mean_axis0 T pd, normed)
         \<and> length normed = length pd
         \<and> (\<forall>i<T. mean_axis0 T pd ! i = np_mean (col i pd)
              \<and> (\<forall>v<length pd.
                    demeaned T True pd ! v ! i = fl_sub (pd ! v ! i) (np_mean (col i pd))
                  \<and> normed ! v ! i =
                      nan_to_num (fl_div (fl_sub (pd ! v ! i) (np_mean (col i pd)))
                                         (np_mean (col i pd)))))"
proof -
  define normed where
    "normed = map (map nan_to_num) (divide_loop T (mean_axis0 T pd) (demeaned T True pd))"
  have run: "normalize sd md T ''percent'' True pd = Inr (mean_axis0 T pd, mean_axis0 T pd, normed)"
    by (simp add: normalize_def normfac_def normed_def Let_def)
  have len: "length normed = length pd"
    by (simp add: normed_def)
  have ent: "demeaned T True pd ! v ! i = fl_sub (pd ! v ! i) (np_mean (col i pd))
           \<and> normed ! v ! i =
               nan_to_num (fl_div (fl_sub (pd ! v ! i) (np_mean (col i pd))) (np_mean (col i pd)))"
    if "i < T" "v < length pd" for i v
  proof -
    have d: "demeaned T True pd ! v ! i = fl_sub (pd ! v ! i) (np_mean (col i pd))"
      using assms that by (simp add: demeaned_def demean_loop_nth nth_mean_axis0)
    have "normed ! v ! i = nan_to_num (fl_div (demeaned T True pd ! v ! i) (mean_axis0 T pd ! i))"
      using run assms that(2,1) by (rule normalize_entry)
    with d that show ?thesis by (simp add: nth_mean_axis0)
  qed
  show ?thesis
    using run len ent by (intro exI [of _ normed]) (simp add: nth_mean_axis0)
qed

text \<open>
  An instance of C8: the column (1, 3) has mean 2 before demeaning and 0 after; the
  factor is 2 and the column becomes (-1/2, 1/2).
\<close>

theorem C8_percent_factor_witness:
  "wellshaped 1 [[Fin 1], [Fin 3]]
   \<and> (\<exists>normed. normalize (np_std demo_env) (mad demo_env) 1 ''percent'' True [[Fin 1], [Fin 3]]
                  = Inr ([Fin 2], [Fin 2], normed)
              \<and> normed ! 0 ! 0 = Fin (- (1 / 2)) \<and> normed ! 1 ! 0 = Fin (1 / 2))"
proof -
  have h: "wellshaped 1 [[Fin 1], [Fin 3]]"
    by (simp add: wellshaped_def)
  have m: "mean_axis0 1 [[Fin 1], [Fin 3]] = [Fin 2]"
    by code_simp
  have c: "np_mean (col 0 [[Fin 1], [Fin 3]]) = Fin 2"
    by code_simp
  have e0: "nan_to_num (fl_div (fl_sub (Fin 1) (Fin 2)) (Fin 2)) = Fin (- (1 / 2))"
    by code_simp
  have e1: "nan_to_num (fl_div (fl_sub (Fin 3) (Fin 2)) (Fin 2)) = Fin (1 / 2)"
    by code_simp
  from C8_percent_factor_is_predemean_mean [OF h, of "np_std demo_env" "mad demo_env"]
  obtain normed where
    r: "normalize (np_std demo_env) (mad demo_env) 1 ''percent'' True [[Fin 1], [Fin 3]]
          = Inr (mean_axis0 1 [[Fin 1], [Fin 3]], mean_axis0 1 [[Fin 1], [Fin 3]], normed)"
    and n: "\<forall>i<1. mean_axis0 1 [[Fin 1], [Fin 3]] ! i = np_mean (col i [[Fin 1], [Fin 3]])
              \<and> (\<forall>v<length [[Fin 1], [Fin 3]].
                    demeaned 1 True [[Fin 1], [Fin 3]] ! v ! i
                      = fl_sub ([[Fin 1], [Fin 3]] ! v ! i) (np_mean (col i [[Fin 1], [Fin 3]]))
                  \<and> normed ! v ! i =
                      nan_to_num (fl_div (fl_sub ([[Fin 1], [Fin 3]] ! v ! i)
                                           (np_mean (col i [[Fin 1], [Fin 3]])))
                                         (np_mean (col i [[Fin 1], [Fin 3]]))))"
    by blast
  from n have "normed ! 0 ! 0 = Fin (- (1 / 2))" and "normed ! 1 ! 0 = Fin (1 / 2)"
    by (simp_all add: c e0 e1)
  with r h show ?thesis unfolding m by blast
qed

section \<open>Claim C9: the ICA path never returns\<close>

text \<open>
  Claim C9 as stated fails in one respect: a run with \<^verbatim>\<open>decomptype = "ica"\<close> that
  reaches the decomposition does not always end in the unbound-name error. With a mask
  threshold above every mask value no voxel is selected, the array handed to FastICA
  has no features, and the fit raises ValueError, which is how the run ends.
\<close>

theorem C9_fit_error_counterexample:
  "decomptype (demo_args\<lparr>decomptype := ''ica'', maskthresh := Fin 2\<rparr>) = ''ica''
   \<and> prelude demo_env (demo_args\<lparr>decomptype := ''ica'', maskthresh := Fin 2\<rparr>)
       = ([ReadNifti (Some ''mask''), ReadNifti (Some ''data'')],
          Inr (2, [], demo_stacked, [NaN, NaN], [NaN, NaN], []))
   \<and> niftidecomp_workflow demo_env (demo_args\<lparr>decomptype := ''ica'', maskthresh := Fin 2\<rparr>)
       = ([ReadNifti (Some ''mask''), ReadNifti (Some ''data''), FastICAFit None],
          Inl (Raised (Exn ''ValueError'' ''Found array with 0 feature(s)'')))
   \<and> Raised (Exn ''ValueError'' ''Found array with 0 feature(s)'')
       \<noteq> UnboundLocalError ''outputcomponents''"
proof -
  have "decomptype (demo_args\<lparr>decomptype := ''ica'', maskthresh := Fin 2\<rparr>) = ''ica''"
    by simp
  moreover have "prelude demo_env (demo_args\<lparr>decomptype := ''ica'', maskthresh := Fin 2\<rparr>)
       = ([ReadNifti (Some ''mask''), ReadNifti (Some ''data'')],
          Inr (2, [], demo_stacked, [NaN, NaN], [NaN, NaN], []))"
    by code_simp
  moreover have "niftidecomp_workflow demo_env
                   (demo_args\<lparr>decomptype := ''ica'', maskthresh := Fin 2\<rparr>)
       = ([ReadNifti (Some ''mask''), ReadNifti (Some ''data''), FastICAFit None],
          Inl (Raised (Exn ''ValueError'' ''Found array with 0 feature(s)'')))"
    by code_simp
  ultimately show ?thesis by simp
qed

text \<open>
  Claim C9, amended: with \<^verbatim>\<open>decomptype = "ica"\<close> no run returns the result tuple. A run
  that reaches the decomposition and whose fit returns ends with the unbound-name error
  for \<^verbatim>\<open>outputcomponents\<close>, the first of the four names the return statement reads that
  only the other branch binds; a run whose fit raises ends with that exception.
\<close>

theorem C9_ica_never_returns:
  assumes "decomptype a = ''ica''"
  shows "(\<forall>r. snd (niftidecomp_workflow env a) \<noteq> Inr r)
       \<and> (\<forall>t n pl g mu fac pd comps.
            prelude env a = (t, Inr (n, pl, g, mu, fac, pd))
            \<and> fastica_fit env (icacomponents a) (transpose_m (totaltimepoints g) pd) = Inr comps
            \<longrightarrow> niftidecomp_workflow env a =
                  (t @ [FastICAFit (icacomponents a)],
                   Inl (UnboundLocalError ''outputcomponents'')))
       \<and> (\<forall>t n pl g mu fac pd ex.
            prelude env a = (t, Inr (n, pl, g, mu, fac, pd))
            \<and> fastica_fit env (icacomponents a) (transpose_m (totaltimepoints g) pd) = Inl ex
            \<longrightarrow> niftidecomp_workflow env a =
                  (t @ [FastICAFit (icacomponents a)], Inl (Raised ex)))"
proof (intro conjI allI impI)
  fix r
  show "snd (niftidecomp_workflow env a) \<noteq> Inr r"
    unfolding niftidecomp_workflow_def using assms
    by (intro io_bind_no_result) (simp add: ica_path_no_result)
next
  fix t n pl g mu fac pd comps
  assume h: "prelude env a = (t, Inr (n, pl, g, mu, fac, pd))
            \<and> fastica_fit env (icacomponents a) (transpose_m (totaltimepoints g) pd) = Inr comps"
  then have "ica_path env a (n, pl, g, mu, fac, pd) =
               ([FastICAFit (icacomponents a)], Inl (UnboundLocalError ''outputcomponents''))"
    by (simp add: ica_path_def io_bind_def io_call_def io_raise_def)
  with h assms show "niftidecomp_workflow env a =
                  (t @ [FastICAFit (icacomponents a)],
                   Inl (UnboundLocalError ''outputcomponents''))"
    by (simp add: workflow_after_prelude)
next
  fix t n pl g mu fac pd ex
  assume h: "prelude env a = (t, Inr (n, pl, g, mu, fac, pd))
            \<and> fastica_fit env (icacomponents a) (transpose_m (totaltimepoints g) pd) = Inl ex"
  then have "ica_path env a (n, pl, g, mu, fac, pd)
               = ([FastICAFit (icacomponents a)], Inl (Raised ex))"
    by (intro ica_path_fit_raises) simp
  with h assms show "niftidecomp_workflow env a =
                  (t @ [FastICAFit (icacomponents a)], Inl (Raised ex))"
    by (simp add: workflow_after_prelude)
qed

text \<open>
  An instance of the amended C9 in the concrete setting: one voxel is selected, the fit
  returns, and the run ends with the unbound-name error.
\<close>

theorem C9_ica_never_returns_witness:
  "decomptype (demo_args\<lparr>decomptype := ''ica''\<rparr>) = ''ica''
   \<and> prelude demo_env (demo_args\<lparr>decomptype := ''ica''\<rparr>)
       = ([ReadNifti (Some ''mask''), ReadNifti (Some ''data'')],
          Inr (2, [0], demo_stacked, [Fin 1, Fin 3], [Fin 1, Fin 1], [[Fin 0, Fin 0]]))
   \<and> fastica_fit demo_env (icacomponents (demo_args\<lparr>decomptype := ''ica''\<rparr>))
         (transpose_m (totaltimepoints demo_stacked) [[Fin 0, Fin 0]]) = Inr [[Fin 1]]
   \<and> niftidecomp_workflow demo_env (demo_args\<lparr>decomptype := ''ica''\<rparr>)
       = ([ReadNifti (Some ''mask''), ReadNifti (Some ''data''), FastICAFit None],
          Inl (UnboundLocalError ''outputcomponents''))"
proof -
  have h: "decomptype (demo_args\<lparr>decomptype := ''ica''\<rparr>) = ''ica''" by simp
  have p: "prelude demo_env (demo_args\<lparr>decomptype := ''ica''\<rparr>)
       = ([ReadNifti (Some ''mask''), ReadNifti (Some ''data'')],
          Inr (2, [0], demo_stacked, [Fin 1, Fin 3], [Fin 1, Fin 1], [[Fin 0, Fin 0]]))"
    by code_simp
  have f: "fastica_fit demo_env (icacomponents (demo_args\<lparr>decomptype := ''ica''\<rparr>))
         (transpose_m (totaltimepoints demo_stacked) [[Fin 0, Fin 0]]) = Inr [[Fin 1]]"
    by code_simp
  have i: "icacomponents (demo_args\<lparr>decomptype := ''ica''\<rparr>) = None"
    by (simp add: demo_args_def default_args_def)
  from C9_ica_never_returns [OF h, of demo_env] p f
  have "niftidecomp_workflow demo_env (demo_args\<lparr>decomptype := ''ica''\<rparr>)
       = ([ReadNifti (Some ''mask''), ReadNifti (Some ''data'')]
            @ [FastICAFit (icacomponents (demo_args\<lparr>decomptype := ''ica''\<rparr>))],
          Inl (UnboundLocalError ''outputcomponents''))"
    by blast
  then have "niftidecomp_workflow demo_env (demo_args\<lparr>decomptype := ''ica''\<rparr>)
       = ([ReadNifti (Some ''mask''), ReadNifti (Some ''data''), FastICAFit None],
          Inl (UnboundLocalError ''outputcomponents''))"
    unfolding i by simp
  with h p f show ?thesis by blast
qed

section \<open>Claim C10: a negative pcacomponents\<close>

text \<open>
  Claim C10: on a fresh fit of PCA or SparsePCA with a negative \<^verbatim>\<open>pcacomponents\<close>, the
  value is replaced by the string \<^verbatim>\<open>"mle"\<close> before the model is constructed; the
  retention test \<^verbatim>\<open>pcacomponents < 1.0\<close> then compares that string with a float and
  raises TypeError for whatever components were fitted, so no such run returns, and one
  whose model is written, fitted and applied ends in that TypeError.
\<close>

theorem C10_negative_pcacomponents_never_completes:
  assumes "decomptype a \<noteq> ''ica''"
    and "trainedmodelroot a = None"
    and "num_of (pcacomponents a) = Some c"
    and "fl_less c (Fin 0)"
  shows "choose_ncomp (pcacomponents a) = Inr (PyStr ''mle'')
       \<and> (\<forall>comps. retain (PyStr ''mle'') comps
                     = Inl (TypeError ''< not supported between these instances''))
       \<and> (\<forall>r. snd (niftidecomp_workflow env a) \<noteq> Inr r)
       \<and> (\<forall>t n pl g mu fac pd M M1 Y Z.
            prelude env a = (t, Inr (n, pl, g, mu, fac, pd))
            \<and> M = (if decomptype a = ''pca'' then new_PCA env (PyStr ''mle'')
                   else new_SparsePCA env (PyStr ''mle''))
            \<and> joblib_dump env M (outputroot a @ ''_pca.joblib'') = Inr ()
            \<and> fit env M (transpose_m (totaltimepoints g) pd) = Inr M1
            \<and> transform env M1 (transpose_m (totaltimepoints g) pd) = Inr Y
            \<and> inverse_transform env M1 Y = Inr Z
            \<longrightarrow> niftidecomp_workflow env a =
                  (t @ [Construct (if decomptype a = ''pca'' then ''PCA'' else ''SparsePCA'')
                          (PyStr ''mle''),
                        JoblibDump (outputroot a @ ''_pca.joblib''), Fit, Transform,
                        InverseTransform],
                   Inl (TypeError ''< not supported between these instances'')))"
proof -
  have ch: "choose_ncomp (pcacomponents a) = Inr (PyStr ''mle'')"
    using assms(3,4) by (rule choose_ncomp_negative)
  note gm = get_model_fresh [OF assms(2) ch, of env]
  have nores: "snd (niftidecomp_workflow env a) \<noteq> Inr r" for r
  proof -
    have "snd (pca_path env a prep) \<noteq> Inr r" for prep
    proof (cases "snd (get_model env a)")
      case (Inl e)
      then obtain t where "get_model env a = (t, Inl e)"
        by (cases "get_model env a") simp
      then show ?thesis by (simp add: pca_path_model_failure)
    next
      case (Inr mp)
      then have "\<exists>M. snd (get_model env a) = Inr (M, PyStr ''mle'')"
        unfolding gm by (auto split: sum.splits)
      then obtain M where "snd (get_model env a) = Inr (M, PyStr ''mle'')" ..
      then show ?thesis by (rule pca_path_string_no_result)
    qed
    then show ?thesis
      unfolding niftidecomp_workflow_def using assms(1)
      by (intro io_bind_no_result) simp
  qed
  have run: "niftidecomp_workflow env a =
                  (t @ [Construct (if decomptype a = ''pca'' then ''PCA'' else ''SparsePCA'')
                          (PyStr ''mle''),
                        JoblibDump (outputroot a @ ''_pca.joblib''), Fit, Transform,
                        InverseTransform],
                   Inl (TypeError ''< not supported between these instances''))"
    if h: "prelude env a = (t, Inr (n, pl, g, mu, fac, pd))
            \<and> M = (if decomptype a = ''pca'' then new_PCA env (PyStr ''mle'')
                   else new_SparsePCA env (PyStr ''mle''))
            \<and> joblib_dump env M (outputroot a @ ''_pca.joblib'') = Inr ()
            \<and> fit env M (transpose_m (totaltimepoints g) pd) = Inr M1
            \<and> transform env M1 (transpose_m (totaltimepoints g) pd) = Inr Y
            \<and> inverse_transform env M1 Y = Inr Z"
    for t n pl g mu fac pd M M1 Y Z
  proof -
    from h have p: "prelude env a = (t, Inr (n, pl, g, mu, fac, pd))"
      and M: "M = (if decomptype a = ''pca'' then new_PCA env (PyStr ''mle'')
                   else new_SparsePCA env (PyStr ''mle''))"
      and d: "joblib_dump env M (outputroot a @ ''_pca.joblib'') = Inr ()"
      and f: "fit env M (transpose_m (totaltimepoints g) pd) = Inr M1"
      and tf: "transform env M1 (transpose_m (totaltimepoints g) pd) = Inr Y"
      and iv: "inverse_transform env M1 Y = Inr Z"
      by blast+
    have m: "get_model env a =
                  ([Construct (if decomptype a = ''pca'' then ''PCA'' else ''SparsePCA'')
                      (PyStr ''mle''),
                    JoblibDump (outputroot a @ ''_pca.joblib'')], Inr (M, PyStr ''mle''))"
      using d unfolding gm M by (cases "decomptype a = ''pca''") simp_all
    from pca_path_string_run [OF m f tf iv, of n pl mu fac] p assms(1) show ?thesis
      by (simp add: workflow_after_prelude)
  qed
  have rt: "\<forall>comps. retain (PyStr ''mle'') comps
                     = Inl (TypeError ''< not supported between these instances'')"
    by (simp add: retain_string)
  show ?thesis
  proof (intro conjI)
    show "choose_ncomp (pcacomponents a) = Inr (PyStr ''mle'')" by (rule ch)
    show "\<forall>comps. retain (PyStr ''mle'') comps
                     = Inl (TypeError ''< not supported between these instances'')" by (rule rt)
    show "\<forall>r. snd (niftidecomp_workflow env a) \<noteq> Inr r" using nores by (rule allI)
  qed (intro allI impI, erule run)
qed

text \<open>
  An instance of C10 in the concrete setting, with \<^verbatim>\<open>pcacomponents = -1\<close>.
\<close>

theorem C10_negative_pcacomponents_witness:
  "decomptype (demo_args\<lparr>pcacomponents := PyInt (- 1)\<rparr>) \<noteq> ''ica''
   \<and> trainedmodelroot (demo_args\<lparr>pcacomponents := PyInt (- 1)\<rparr>) = None
   \<and> num_of (pcacomponents (demo_args\<lparr>pcacomponents := PyInt (- 1)\<rparr>)) = Some (Fin (- 1))
   \<and> fl_less (Fin (- 1)) (Fin 0)
   \<and> choose_ncomp (pcacomponents (demo_args\<lparr>pcacomponents := PyInt (- 1)\<rparr>)) = Inr (PyStr ''mle'')
   \<and> niftidecomp_workflow demo_env (demo_args\<lparr>pcacomponents := PyInt (- 1)\<rparr>)
       = ([ReadNifti (Some ''mask''), ReadNifti (Some ''data''),
           Construct ''PCA'' (PyStr ''mle''), JoblibDump ''out_pca.joblib'',
           Fit, Transform, InverseTransform],
          Inl (TypeError ''< not supported between these instances''))"
proof -
  let ?a = "demo_args\<lparr>pcacomponents := PyInt (- 1)\<rparr>"
  have h1: "decomptype ?a \<noteq> ''ica''"
    by (simp add: demo_args_def default_args_def)
  have h2: "trainedmodelroot ?a = None"
    by (simp add: demo_args_def default_args_def)
  have h3: "num_of (pcacomponents ?a) = Some (Fin (- 1))"
    by (simp add: num_of_def)
  have h4: "fl_less (Fin (- 1)) (Fin 0)"
    by (simp add: fl_less_def)
  have dt: "decomptype ?a = ''pca''" and out: "outputroot ?a = ''out''"
    by (simp_all add: demo_args_def default_args_def)
  have p: "prelude demo_env ?a
       = ([ReadNifti (Some ''mask''), ReadNifti (Some ''data'')],
          Inr (2, [0], demo_stacked, [Fin 1, Fin 3], [Fin 1, Fin 1], [[Fin 0, Fin 0]]))"
    by code_simp
  have m: "[] = (if decomptype ?a = ''pca'' then new_PCA demo_env (PyStr ''mle'')
                 else new_SparsePCA demo_env (PyStr ''mle''))"
    by (simp add: demo_env_def)
  have d: "joblib_dump demo_env [] (outputroot ?a @ ''_pca.joblib'') = Inr ()"
    by (simp add: demo_env_def)
  have f: "fit demo_env [] (transpose_m (totaltimepoints demo_stacked) [[Fin 0, Fin 0]])
             = Inr [[Fin 0], [Fin 0]]"
    by code_simp
  have t: "transform demo_env [[Fin 0], [Fin 0]]
             (transpose_m (totaltimepoints demo_stacked) [[Fin 0, Fin 0]]) = Inr [[Fin 0], [Fin 0]]"
    by code_simp
  have i: "inverse_transform demo_env [[Fin 0], [Fin 0]] [[Fin 0], [Fin 0]] = Inr [[Fin 0], [Fin 0]]"
    by (simp add: demo_env_def)
  note th = C10_negative_pcacomponents_never_completes [OF h1 h2 h3 h4, of demo_env]
  from th have c: "choose_ncomp (pcacomponents ?a) = Inr (PyStr ''mle'')"
    by (rule conjunct1)
  from th p m d f t i
  have "niftidecomp_workflow demo_env ?a =
          ([ReadNifti (Some ''mask''), ReadNifti (Some ''data'')]
             @ [Construct (if decomptype ?a = ''pca'' then ''PCA'' else ''SparsePCA'') (PyStr ''mle''),
                JoblibDump (outputroot ?a @ ''_pca.joblib''), Fit, Transform, InverseTransform],
           Inl (TypeError ''< not supported between these instances''))"
    by blast
  then have "niftidecomp_workflow demo_env ?a
       = ([ReadNifti (Some ''mask''), ReadNifti (Some ''data''),
           Construct ''PCA'' (PyStr ''mle''), JoblibDump ''out_pca.joblib'',
           Fit, Transform, InverseTransform],
          Inl (TypeError ''< not supported between these instances''))"
    unfolding dt out by simp
  with h1 h2 h3 h4 c show ?thesis by blast
qed

end
